theory Spec2Isabelle
  imports Complex_Main
begin

section \<open>Python values\<close>

text \<open>
  The handlers of StudyQuestBackend read untyped data in two places: the JSON object
  that a request carries as its body, and the JSON reply of the chat-completion API. Such a
  value is a \<open>pyval\<close>. A float is the rational number it denotes (\<open>PFloat\<close>), an infinity
  is \<open>PInf\<close>, a NaN is \<open>PNaN\<close>; a \<open>datetime\<close> is \<open>PDate\<close> with its microseconds since the
  epoch; a dict is the list of its items, read with \<open>map_of\<close>. A Python \<open>str\<close> is the
  \<open>string\<close> of its UTF-8 bytes; where the source counts or cuts characters, the model
  counts and cuts code points.
\<close>

datatype pyval =
    PNone
  | PBool bool
  | PInt int
  | PFloat rat
  | PInf
  | PNaN
  | PStr string
  | PDate int
  | PList "pyval list"
  | PDict "(string \<times> pyval) list"

text \<open>Truth value testing, as \<open>if x\<close>, \<open>not x\<close> and \<open>x or y\<close> do it.\<close>

fun truthy :: "pyval \<Rightarrow> bool" where
  "truthy PNone = False"
| "truthy (PBool b) = b"
| "truthy (PInt n) = (n \<noteq> 0)"
| "truthy (PFloat r) = (r \<noteq> 0)"
| "truthy PInf = True"
| "truthy PNaN = True"
| "truthy (PStr s) = (s \<noteq> [])"
| "truthy (PDate d) = True"
| "truthy (PList xs) = (xs \<noteq> [])"
| "truthy (PDict kv) = (kv \<noteq> [])"

definition py_or :: "pyval \<Rightarrow> pyval \<Rightarrow> pyval" where
  "py_or a b = (if truthy a then a else b)"

text \<open>\<open>d.get(k)\<close>: the value, or \<open>None\<close> for a missing key.\<close>

definition dict_get :: "(string \<times> pyval) list \<Rightarrow> string \<Rightarrow> pyval" where
  "dict_get d k = (case map_of d k of None \<Rightarrow> PNone | Some v \<Rightarrow> v)"

definition opt_str :: "string option \<Rightarrow> pyval" where
  "opt_str x = (case x of None \<Rightarrow> PNone | Some s \<Rightarrow> PStr s)"

definition opt_int :: "int option \<Rightarrow> pyval" where
  "opt_int x = (case x of None \<Rightarrow> PNone | Some n \<Rightarrow> PInt n)"

datatype py_exc = TypeError | ValueError | OverflowError | IndexError | AttributeError

text \<open>
  A handler fails with an \<open>HTTPException\<close> it raises itself (status code and detail), or
  with an exception nobody catches, which the framework answers with status 500.
\<close>

datatype failure = HTTPException nat string | Unhandled py_exc

fun status_code :: "failure \<Rightarrow> nat" where
  "status_code (HTTPException c d) = c"
| "status_code (Unhandled e) = 500"

text \<open>
  Three builtins are parameters of the model, since their full behaviour is Python's and
  not this repository's: \<open>int(s)\<close> on a \<open>str\<close> (\<open>None\<close> stands for its \<open>ValueError\<close>),
  \<open>str(x)\<close> on a value that is not a \<open>str\<close>, and \<open>s.lower()\<close>, which follows the
  Unicode tables. Every theorem below holds for all of them.
\<close>

record builtins =
  int_str :: "string \<Rightarrow> int option"
  str_other :: "pyval \<Rightarrow> string"
  str_lower :: "string \<Rightarrow> string"

fun py_int :: "builtins \<Rightarrow> pyval \<Rightarrow> py_exc + int" where
  "py_int B PNone = Inl TypeError"
| "py_int B (PBool b) = Inr (if b then 1 else 0)"
| "py_int B (PInt n) = Inr n"
| "py_int B (PFloat r) = Inr (if r < 0 then - \<lfloor>- r\<rfloor> else \<lfloor>r\<rfloor>)"
| "py_int B PInf = Inl OverflowError"
| "py_int B PNaN = Inl ValueError"
| "py_int B (PStr s) = (case int_str B s of None \<Rightarrow> Inl ValueError | Some n \<Rightarrow> Inr n)"
| "py_int B (PDate d) = Inl TypeError"
| "py_int B (PList xs) = Inl TypeError"
| "py_int B (PDict kv) = Inl TypeError"

fun py_str :: "builtins \<Rightarrow> pyval \<Rightarrow> string" where
  "py_str B (PStr s) = s"
| "py_str B v = str_other B v"

text \<open>\<open>xs[:n]\<close> and \<open>xs[i]\<close>, with Python's reading of a negative bound or index.\<close>

definition slice_to :: "'a list \<Rightarrow> int \<Rightarrow> 'a list" where
  "slice_to xs n = (if 0 \<le> n then take (nat n) xs else take (length xs - nat (- n)) xs)"

definition py_index :: "'a list \<Rightarrow> int \<Rightarrow> 'a option" where
  "py_index xs i =
     (let n = int (length xs); j = (if i < 0 then n + i else i)
      in if 0 \<le> j \<and> j < n then Some (xs ! nat j) else None)"

section \<open>The relational store and the in-memory sessions\<close>

text \<open>
  The tables are lists of rows in insertion order; \<open>.first()\<close> is the first row that
  matches. Primary keys are left out, and a commit does not fail. A \<open>datetime\<close> is its
  number of microseconds since the epoch.
\<close>

record user_row =
  username :: string
  email :: "string option"
  total_xp :: "int option"

record boss_battle =
  bb_user :: string
  bb_date :: int
  bb_score :: int
  bb_total_questions :: int
  bb_xp_reward :: int
  bb_difficulty :: string
  bb_completed :: bool

record reflection =
  r_user :: pyval
  r_date :: pyval
  r_reflection_text :: string
  r_ai_feedback :: pyval
  r_summary :: pyval
  r_xp_reward :: int

record progress =
  p_user :: string
  p_date :: int
  p_duration_minutes :: "int option"
  p_reflection :: "string option"
  p_xp_gained :: int

record quiz_question =
  question :: pyval
  choices :: "pyval list"
  answer_idx :: int

text \<open>One entry of \<open>_ACTIVE_SESSIONS\<close>: the dict that \<open>start_boss_battle\<close> builds.\<close>

record session =
  difficulty :: string
  started_at :: int
  time_limit_seconds :: int
  lives :: int
  score :: int
  index :: int
  total_questions :: int
  questions :: "quiz_question list"

record state =
  ACTIVE_SESSIONS :: "string \<Rightarrow> session option"
  users :: "user_row list"
  boss_battles :: "boss_battle list"
  reflections :: "reflection list"
  progress_rows :: "progress list"

definition find_user :: "user_row list \<Rightarrow> string \<Rightarrow> user_row option" where
  "find_user us name = find (\<lambda>u. username u = name) us"

text \<open>
  The reply of the chat-completion API, as the caller meets it: no client is configured;
  the call, the access to its first choice or \<open>json.loads\<close> raises; or \<open>json.loads\<close>
  returns a value.
\<close>

datatype ai_reply = Unconfigured | Raises | Replied pyval

section \<open>routers/bossbattle.py\<close>

definition QUESTIONS :: "quiz_question list" where
  "QUESTIONS =
    [\<lparr>question = PStr ''What is the time complexity of binary search?'',
      choices = [PStr ''O(n)'', PStr ''O(log n)'', PStr ''O(n log n)'', PStr ''O(1)''],
      answer_idx = 1\<rparr>,
     \<lparr>question = PStr ''Which HTTP method is idempotent?'',
      choices = [PStr ''POST'', PStr ''PUT'', PStr ''PATCH'', PStr ''CONNECT''],
      answer_idx = 1\<rparr>,
     \<lparr>question = PStr ''What does SQL stand for?'',
      choices = [PStr ''Simple Query Language'', PStr ''Structured Query Language'',
                 PStr ''Sequential Query Language'', PStr ''System Query Language''],
      answer_idx = 1\<rparr>,
     \<lparr>question = PStr ''Which data structure uses FIFO order?'',
      choices = [PStr ''Stack'', PStr ''Queue'', PStr ''Tree'', PStr ''Heap''],
      answer_idx = 1\<rparr>,
     \<lparr>question = PStr ''Which status code means 'Not Found'?'',
      choices = [PStr ''200'', PStr ''301'', PStr ''404'', PStr ''500''],
      answer_idx = 2\<rparr>]"

text \<open>
  The validation loop of \<open>_generate_ai_questions\<close> over the entries of the reply:
  an entry that is no dict is skipped by \<open>continue\<close>, before the test that breaks the
  loop; \<open>int(answer_idx)\<close> falls back to 0 on any exception.
\<close>

fun clean_questions ::
  "builtins \<Rightarrow> int \<Rightarrow> pyval list \<Rightarrow> quiz_question list \<Rightarrow> quiz_question list" where
  "clean_questions B tot [] cleaned = cleaned"
| "clean_questions B tot (q # qs) cleaned =
    (case q of
       PDict d \<Rightarrow>
         (let qu = dict_get d ''question'';
              ch = dict_get d ''choices'';
              a = dict_get d ''answer_idx'';
              cleaned' =
                (case ch of
                   PList cs \<Rightarrow>
                     if truthy qu \<and> 2 \<le> length cs
                     then cleaned @
                       [\<lparr>question = qu, choices = slice_to cs 4,
                         answer_idx = (case py_int B a of Inl e \<Rightarrow> 0 | Inr n \<Rightarrow> n)\<rparr>]
                     else cleaned
                 | _ \<Rightarrow> cleaned)
          in if tot \<le> int (length cleaned') then cleaned'
             else clean_questions B tot qs cleaned')
     | _ \<Rightarrow> clean_questions B tot qs cleaned)"

text \<open>
  A reply that is no dict has no questions; a \<open>questions\<close> value that is no list either
  cannot be iterated (the \<open>TypeError\<close> is caught) or yields no dict (a string yields its
  characters, a dict its keys): both end in the static bank.
\<close>

definition generate_ai_questions ::
  "builtins \<Rightarrow> ai_reply \<Rightarrow> int \<Rightarrow> quiz_question list" where
  "generate_ai_questions B ai tot =
    (case ai of
       Unconfigured \<Rightarrow> slice_to QUESTIONS tot
     | Raises \<Rightarrow> slice_to QUESTIONS tot
     | Replied data \<Rightarrow>
         (let qs = (case data of
                      PDict d \<Rightarrow> (case map_of d ''questions'' of None \<Rightarrow> PList [] | Some v \<Rightarrow> v)
                    | _ \<Rightarrow> PList []);
              cleaned = (case qs of PList es \<Rightarrow> clean_questions B tot es [] | _ \<Rightarrow> [])
          in if cleaned \<noteq> [] then slice_to cleaned tot else slice_to QUESTIONS tot))"

text \<open>
  \<open>_get_session\<close>. The dict's keys are strings, so a key of another hashable type is not
  found, and a list or dict as key raises \<open>TypeError\<close>. The session comes with its key.
\<close>

definition get_session :: "state \<Rightarrow> pyval \<Rightarrow> failure + string \<times> session" where
  "get_session s key =
    (case key of
       PStr user \<Rightarrow>
         (case ACTIVE_SESSIONS s user of
            None \<Rightarrow> Inl (HTTPException 404 ''No active boss battle. Start one first.'')
          | Some sess \<Rightarrow> Inr (user, sess))
     | PList xs \<Rightarrow> Inl (Unhandled TypeError)
     | PDict kv \<Rightarrow> Inl (Unhandled TypeError)
     | _ \<Rightarrow> Inl (HTTPException 404 ''No active boss battle. Start one first.''))"

text \<open>
  \<open>_time_remaining\<close>, at the clock reading \<open>now\<close>. The source subtracts the elapsed
  seconds, a float with microsecond resolution, from the limit and truncates toward zero
  with \<open>int\<close>; the model computes the same on exact microseconds. (The floats of the
  source are exact to well below a microsecond while the session's age and its limit
  stay below thirty years.)
\<close>

definition trunc_div :: "int \<Rightarrow> int \<Rightarrow> int" where
  "trunc_div a b = (if a < 0 then - ((- a) div b) else a div b)"

definition time_remaining :: "session \<Rightarrow> int \<Rightarrow> int" where
  "time_remaining sess now =
    (let elapsed = now - started_at sess
     in max 0 (trunc_div (time_limit_seconds sess * 1000000 - elapsed) 1000000))"

datatype boss_response =
    Info
  | SessionClosed
  | Ended string int int int int
  | Started string int int int int pyval "pyval list"
  | CurrentQuestion pyval "pyval list" int int int int int
  | Answered bool string int int int int int pyval "pyval list"
  | Status int int int int int

text \<open>
  The arguments are the values of the response dict in the order of the source:
  \<open>Ended status score xp_reward total_questions lives_remaining\<close>;
  \<open>Started user timer_seconds lives number total question choices\<close>;
  \<open>CurrentQuestion question choices number total lives timer_remaining score\<close>;
  \<open>Answered correct feedback lives score timer_remaining number total question choices\<close>;
  \<open>Status lives score question_number total_questions timer_remaining\<close>.
\<close>

text \<open>
  \<open>_end_session\<close>, with the clock reading \<open>now\<close> for the date of the row. The XP goes to
  the first row of the user, \<open>credit_xp\<close>; when there is none, only the battle is recorded.
\<close>

fun credit_xp :: "user_row list \<Rightarrow> string \<Rightarrow> int \<Rightarrow> user_row list" where
  "credit_xp [] name xp = []"
| "credit_xp (u # us) name xp =
    (if username u = name
     then u\<lparr>total_xp := Some ((case total_xp u of None \<Rightarrow> 0 | Some x \<Rightarrow> x) + xp)\<rparr> # us
     else u # credit_xp us name xp)"

definition end_session ::
  "string \<Rightarrow> string \<Rightarrow> int \<Rightarrow> state \<Rightarrow> boss_response \<times> state" where
  "end_session user status now s =
    (case ACTIVE_SESSIONS s user of
       None \<Rightarrow> (SessionClosed, s)
     | Some sess \<Rightarrow>
         (let xp_reward = score sess * 20;
              row = \<lparr>bb_user = user, bb_date = now, bb_score = score sess,
                     bb_total_questions = total_questions sess, bb_xp_reward = xp_reward,
                     bb_difficulty = difficulty sess, bb_completed = True\<rparr>
          in (Ended status (score sess) xp_reward (total_questions sess) (lives sess),
              s\<lparr>users := credit_xp (users s) user xp_reward,
                boss_battles := boss_battles s @ [row],
                ACTIVE_SESSIONS := (ACTIVE_SESSIONS s)(user := None)\<rparr>)))"

text \<open>
  A handler reads the clock more than once. \<open>clk k\<close> is the value of the \<open>k\<close>-th call of
  \<open>datetime.utcnow()\<close> while the request is handled; nothing is assumed about it.
\<close>

record StartRequest =
  sr_user :: string
  sr_difficulty :: "string option"
  sr_total_questions :: "int option"
  sr_time_limit_seconds :: "int option"

text \<open>
  \<open>start_boss_battle\<close>. \<open>total_questions\<close> is \<open>Optional[int]\<close>: on \<open>None\<close> the
  comparison \<open>payload.total_questions < 1\<close> raises \<open>TypeError\<close>. The session is stored
  before \<open>questions[0]\<close> is read.
\<close>

definition start_boss_battle ::
  "builtins \<Rightarrow> StartRequest \<Rightarrow> ai_reply \<Rightarrow> (nat \<Rightarrow> int) \<Rightarrow> state
     \<Rightarrow> (failure + boss_response) \<times> state" where
  "start_boss_battle B payload ai clk s =
    (case find_user (users s) (sr_user payload) of
       None \<Rightarrow> (Inl (HTTPException 404 ''User not found. Please register first.''), s)
     | Some u \<Rightarrow>
         (case sr_total_questions payload of
            None \<Rightarrow> (Inl (Unhandled TypeError), s)
          | Some tq \<Rightarrow>
              if tq < 1 then (Inl (HTTPException 400 ''total_questions must be >= 1''), s)
              else if ACTIVE_SESSIONS s (sr_user payload) \<noteq> None
              then (Inl (HTTPException 409 ''An active boss battle already exists.''), s)
              else
                (let tot = (if tq \<noteq> 0 then min tq (int (length QUESTIONS))
                            else int (length QUESTIONS));
                     qs = generate_ai_questions B ai tot;
                     timer = (case sr_time_limit_seconds payload of
                                None \<Rightarrow> 180 | Some t \<Rightarrow> if t \<noteq> 0 then t else 180);
                     sess = \<lparr>difficulty = (case sr_difficulty payload of
                                               None \<Rightarrow> ''medium''
                                             | Some d \<Rightarrow> if d \<noteq> [] then d else ''medium''),
                             started_at = clk 0, time_limit_seconds = timer,
                             lives = 3, score = 0, index = 0,
                             total_questions = tot, questions = qs\<rparr>;
                     s' = s\<lparr>ACTIVE_SESSIONS := (ACTIVE_SESSIONS s)(sr_user payload \<mapsto> sess)\<rparr>
                 in case qs of
                      [] \<Rightarrow> (Inl (Unhandled IndexError), s')
                    | q # rest \<Rightarrow>
                        (Inr (Started (sr_user payload) timer 3 1 tot (question q) (choices q)),
                         s'))))"

text \<open>The handlers return the dict of \<open>_end_session\<close> as their response.\<close>

definition ended :: "boss_response \<times> state \<Rightarrow> (failure + boss_response) \<times> state" where
  "ended r = (Inr (fst r), snd r)"

definition get_current_question ::
  "string \<Rightarrow> (nat \<Rightarrow> int) \<Rightarrow> state \<Rightarrow> (failure + boss_response) \<times> state" where
  "get_current_question user clk s =
    (case get_session s (PStr user) of
       Inl e \<Rightarrow> (Inl e, s)
     | Inr (u, sess) \<Rightarrow>
         if time_remaining sess (clk 0) = 0 then ended (end_session u ''timeout'' (clk 1) s)
         else if lives sess \<le> 0 then ended (end_session u ''out_of_lives'' (clk 1) s)
         else
           (let idx = index sess
            in if total_questions sess \<le> idx
               then ended (end_session u ''completed'' (clk 1) s)
               else
                 (case py_index (questions sess) idx of
                    None \<Rightarrow> (Inl (Unhandled IndexError), s)
                  | Some q \<Rightarrow>
                      (Inr (CurrentQuestion (question q) (choices q) (idx + 1)
                              (total_questions sess) (lives sess)
                              (time_remaining sess (clk 1)) (score sess)),
                       s))))"

text \<open>
  The request of \<open>POST /boss/answer\<close> as the handler receives it: the body parsed into
  an \<open>AnswerRequest\<close>, when there is one, and the two query parameters. The parameter is
  declared \<open>payload: AnswerRequest | None = Body(default=None)\<close>, so the framework
  validates a body before the handler runs and answers a body that fails with status 422
  itself. Without a payload there is therefore no body to read: \<open>request.json()\<close> and
  \<open>request.form()\<close> add nothing, and the local dict \<open>body\<close> of the handler stays empty.
\<close>

datatype AnswerRequest = AnswerRequest string int

record answer_http =
  payload :: "AnswerRequest option"
  q_user :: "string option"
  q_choice_idx :: "int option"

definition resolve_answer :: "builtins \<Rightarrow> answer_http \<Rightarrow> pyval \<times> int option" where
  "resolve_answer B req =
    (case payload req of
       Some (AnswerRequest u c) \<Rightarrow> (PStr u, Some c)
     | None \<Rightarrow>
         (let body = ([] :: (string \<times> pyval) list);
              user = py_or (dict_get body ''user'')
                      (py_or (dict_get body ''username'') (opt_str (q_user req)));
              choice_raw = py_or (dict_get body ''choice_idx'')
                            (py_or (dict_get body ''choiceIdx'')
                              (py_or (dict_get body ''choice'') (opt_int (q_choice_idx req))));
              choice = (if choice_raw \<noteq> PNone
                        then (case py_int B choice_raw of Inl e \<Rightarrow> None | Inr n \<Rightarrow> Some n)
                        else None)
          in (user, choice)))"

text \<open>
  \<open>submit_answer\<close>. The session dict is mutated in place, so the map holds the new
  score, lives and index before the checks that follow, and keeps them when the read of
  the next question raises.
\<close>

definition submit_answer ::
  "builtins \<Rightarrow> answer_http \<Rightarrow> (nat \<Rightarrow> int) \<Rightarrow> state \<Rightarrow> (failure + boss_response) \<times> state" where
  "submit_answer B req clk s =
    (case resolve_answer B req of
       (name, choice_opt) \<Rightarrow>
         if \<not> truthy name then (Inl (HTTPException 400 ''user is required.''), s)
         else
           (case choice_opt of
              None \<Rightarrow> (Inl (HTTPException 400 ''choice_idx is required.''), s)
            | Some choice \<Rightarrow>
                (case get_session s name of
                   Inl e \<Rightarrow> (Inl e, s)
                 | Inr (u, sess) \<Rightarrow>
                     if time_remaining sess (clk 0) = 0
                     then ended (end_session u ''timeout'' (clk 1) s)
                     else if total_questions sess \<le> index sess
                     then ended (end_session u ''completed'' (clk 1) s)
                     else
                       (case py_index (questions sess) (index sess) of
                          None \<Rightarrow> (Inl (Unhandled IndexError), s)
                        | Some q \<Rightarrow>
                            (let is_correct = (choice = answer_idx q);
                                 sess1 = (if is_correct then sess\<lparr>score := score sess + 1\<rparr>
                                          else sess\<lparr>lives := lives sess - 1\<rparr>);
                                 feedback = (if is_correct then ''Correct! +20 XP''
                                             else ''Wrong! -1 life'');
                                 sess2 = sess1\<lparr>index := index sess1 + 1\<rparr>;
                                 s' = s\<lparr>ACTIVE_SESSIONS := (ACTIVE_SESSIONS s)(u \<mapsto> sess2)\<rparr>
                             in if lives sess2 \<le> 0
                                then ended (end_session u ''out_of_lives'' (clk 1) s')
                                else if total_questions sess2 \<le> index sess2
                                then ended (end_session u ''completed'' (clk 1) s')
                                else
                                  (case py_index (questions sess2) (index sess2) of
                                     None \<Rightarrow> (Inl (Unhandled IndexError), s')
                                   | Some next_q \<Rightarrow>
                                       (Inr (Answered is_correct feedback (lives sess2)
                                               (score sess2) (time_remaining sess2 (clk 1))
                                               (index sess2 + 1) (total_questions sess2)
                                               (question next_q) (choices next_q)),
                                        s')))))))"

definition get_status ::
  "string \<Rightarrow> (nat \<Rightarrow> int) \<Rightarrow> state \<Rightarrow> (failure + boss_response) \<times> state" where
  "get_status user clk s =
    (case get_session s (PStr user) of
       Inl e \<Rightarrow> (Inl e, s)
     | Inr (u, sess) \<Rightarrow>
         (let remaining = time_remaining sess (clk 0)
          in if remaining = 0 then ended (end_session u ''timeout'' (clk 1) s)
             else (Inr (Status (lives sess) (score sess)
                          (min (index sess + 1) (total_questions sess))
                          (total_questions sess) remaining),
                   s)))"

definition forfeit ::
  "string \<Rightarrow> (nat \<Rightarrow> int) \<Rightarrow> state \<Rightarrow> (failure + boss_response) \<times> state" where
  "forfeit user clk s =
    (case get_session s (PStr user) of
       Inl e \<Rightarrow> (Inl e, s)
     | Inr (u, sess) \<Rightarrow> ended (end_session u ''forfeit'' (clk 0) s))"

text \<open>The requests of the \<open>/boss\<close> router, each with its clock, and a run of them.\<close>

datatype boss_request =
    GetInfo
  | PostStart StartRequest ai_reply
  | GetQuestion string
  | PostAnswer answer_http
  | GetStatus string
  | PostForfeit string

fun boss_handler ::
  "builtins \<Rightarrow> boss_request \<Rightarrow> (nat \<Rightarrow> int) \<Rightarrow> state \<Rightarrow> (failure + boss_response) \<times> state" where
  "boss_handler B GetInfo clk s = (Inr Info, s)"
| "boss_handler B (PostStart p ai) clk s = start_boss_battle B p ai clk s"
| "boss_handler B (GetQuestion u) clk s = get_current_question u clk s"
| "boss_handler B (PostAnswer r) clk s = submit_answer B r clk s"
| "boss_handler B (GetStatus u) clk s = get_status u clk s"
| "boss_handler B (PostForfeit u) clk s = forfeit u clk s"

fun run :: "builtins \<Rightarrow> (boss_request \<times> (nat \<Rightarrow> int)) list \<Rightarrow> state \<Rightarrow> state" where
  "run B [] s = s"
| "run B (rc # rest) s = run B rest (snd (boss_handler B (fst rc) (snd rc) s))"

text \<open>
  The bounds on a session that the handlers above keep, as one predicate for the proofs.
\<close>

definition sess_inv :: "session \<Rightarrow> bool" where
  "sess_inv x = (1 \<le> lives x \<and> lives x \<le> 3 \<and> 0 \<le> score x \<and> score x \<le> index x
                 \<and> index x < total_questions x \<and> total_questions x \<le> 5)"

section \<open>routers/text_ai.py\<close>

record ai_feedback =
  feedback :: pyval
  summary :: pyval
  xp_reward :: int

fun starts_with :: "string \<Rightarrow> string \<Rightarrow> bool" where
  "starts_with [] s = True"
| "starts_with (c # w) [] = False"
| "starts_with (c # w) (d # s) = (c = d \<and> starts_with w s)"

text \<open>
  \<open>word in text\<close> on strings: \<open>word\<close> occurs in \<open>text\<close> as a substring. Between
  UTF-8 strings, a substring of bytes is a substring of code points.
\<close>

fun contains :: "string \<Rightarrow> string \<Rightarrow> bool" where
  "contains w [] = (w = [])"
| "contains w (c # s) = (starts_with w (c # s) \<or> contains w s)"

definition em_dash :: string where
  "em_dash = [CHR 0xE2, CHR 0x80, CHR 0x94]"

definition en_dash :: string where
  "en_dash = [CHR 0xE2, CHR 0x80, CHR 0x93]"

text \<open>
  \<open>len(s)\<close> and \<open>s[:n]\<close> on a \<open>str\<close> count code points. In UTF-8 a byte of the form
  \<open>10xxxxxx\<close> continues the code point that an earlier byte began, and every other byte
  begins one.
\<close>

definition is_continuation :: "char \<Rightarrow> bool" where
  "is_continuation c = (digit7 c \<and> \<not> digit6 c)"

definition str_len :: "string \<Rightarrow> nat" where
  "str_len s = length (filter (\<lambda>c. \<not> is_continuation c) s)"

fun str_take :: "nat \<Rightarrow> string \<Rightarrow> string" where
  "str_take n [] = []"
| "str_take n (c # cs) =
    (if is_continuation c then c # str_take n cs
     else (case n of 0 \<Rightarrow> [] | Suc k \<Rightarrow> c # str_take k cs))"

text \<open>
  \<open>reflection_text[:120] + "..." if len(reflection_text) > 120 else reflection_text\<close>,
  which both feedback functions use for the summary.
\<close>

definition shorten :: "string \<Rightarrow> string" where
  "shorten reflection_text =
    (if 120 < str_len reflection_text then str_take 120 reflection_text @ ''...''
     else reflection_text)"

definition mock_ai_feedback :: "builtins \<Rightarrow> string \<Rightarrow> ai_feedback" where
  "mock_ai_feedback B reflection_text =
    (let text = str_lower B reflection_text;
         fb =
           (if list_ex (\<lambda>w. contains w text) [''tired'', ''hard'', ''struggle'', ''stuck'']
            then ''It sounds like you faced challenges today '' @ em_dash @
                 '' remember, progress is built through persistence.''
            else if list_ex (\<lambda>w. contains w text)
                      [''happy'', ''productive'', ''focused'', ''good'', ''great'']
            then ''Fantastic work! Keep maintaining that focused mindset.''
            else ''Keep reflecting '' @ em_dash @
                 '' awareness is the key to consistent improvement.'')
     in \<lparr>feedback = PStr fb, summary = PStr (shorten reflection_text), xp_reward = 10\<rparr>)"

text \<open>
  \<open>generate_ai_feedback\<close>. On a reply that is no dict, \<open>data.get\<close> raises
  \<open>AttributeError\<close>, which the outer handler catches. The inner handler around
  \<open>int(xp_reward)\<close> catches \<open>ValueError\<close> and \<open>TypeError\<close> only: the \<open>OverflowError\<close> of an
  infinite float reaches the outer one.
\<close>

definition generate_ai_feedback :: "builtins \<Rightarrow> ai_reply \<Rightarrow> string \<Rightarrow> ai_feedback" where
  "generate_ai_feedback B ai reflection_text =
    (case ai of
       Unconfigured \<Rightarrow> mock_ai_feedback B reflection_text
     | Raises \<Rightarrow> mock_ai_feedback B reflection_text
     | Replied data \<Rightarrow>
         (case data of
            PDict d \<Rightarrow>
              (let fb = py_or (dict_get d ''feedback'')
                         (PStr (''Keep going '' @ en_dash @
                                '' each reflection helps you improve.''));
                   sm = py_or (dict_get d ''summary'') (PStr (shorten reflection_text));
                   xp = (case map_of d ''xp_reward'' of None \<Rightarrow> PInt 10 | Some v \<Rightarrow> v)
               in case py_int B xp of
                    Inr n \<Rightarrow> \<lparr>feedback = fb, summary = sm, xp_reward = max 5 (min 25 n)\<rparr>
                  | Inl ValueError \<Rightarrow> \<lparr>feedback = fb, summary = sm, xp_reward = max 5 (min 25 10)\<rparr>
                  | Inl TypeError \<Rightarrow> \<lparr>feedback = fb, summary = sm, xp_reward = max 5 (min 25 10)\<rparr>
                  | Inl e \<Rightarrow> mock_ai_feedback B reflection_text)
          | _ \<Rightarrow> mock_ai_feedback B reflection_text))"

text \<open>
  The request of \<open>POST /text-ai/\<close>. The body parameter is declared
  \<open>TextAIReflectionCreate | dict | None\<close>: a JSON object that does not validate as the
  schema arrives as a dict, and a body that is neither is answered with status 422 by
  the framework. Without a body value there is no body to read, so \<open>request.json()\<close> and
  \<open>request.form()\<close> add nothing to \<open>incoming\<close>.
\<close>

record TextAIReflectionCreate =
  trc_user :: string
  trc_reflection_text :: string
  trc_date :: "int option"

datatype reflection_body =
    BodyModel TextAIReflectionCreate
  | BodyDict "(string \<times> pyval) list"
  | BodyNone

record reflection_http =
  rdata :: reflection_body
  rq_user :: "string option"
  rq_text :: "string option"

definition incoming :: "reflection_http \<Rightarrow> (string \<times> pyval) list" where
  "incoming req =
    (case rdata req of
       BodyModel m \<Rightarrow>
         [(''user'', PStr (trc_user m)), (''reflection_text'', PStr (trc_reflection_text m))] @
         (case trc_date m of None \<Rightarrow> [] | Some d \<Rightarrow> [(''date'', PDate d)])
     | BodyDict d \<Rightarrow> d
     | BodyNone \<Rightarrow> [])"

definition resolve_username :: "reflection_http \<Rightarrow> pyval" where
  "resolve_username req =
    py_or (dict_get (incoming req) ''user'')
      (py_or (dict_get (incoming req) ''username'') (opt_str (rq_user req)))"

definition resolve_text :: "reflection_http \<Rightarrow> pyval" where
  "resolve_text req =
    py_or (dict_get (incoming req) ''reflection_text'')
      (py_or (dict_get (incoming req) ''reflectionText'')
        (py_or (dict_get (incoming req) ''text'')
          (py_or (dict_get (incoming req) ''reflection'') (opt_str (rq_text req)))))"

text \<open>
  \<open>incoming.get("date") or (data.date if data else None) or datetime.utcnow()\<close>: a dict
  body that is not empty has no attribute \<open>date\<close>.
\<close>

definition reflection_date :: "reflection_http \<Rightarrow> int \<Rightarrow> py_exc + pyval" where
  "reflection_date req now =
    (let d1 = dict_get (incoming req) ''date''
     in if truthy d1 then Inr d1
        else
          (case rdata req of
             BodyModel m \<Rightarrow> (case trc_date m of None \<Rightarrow> Inr (PDate now) | Some d \<Rightarrow> Inr (PDate d))
           | BodyDict d \<Rightarrow> if d \<noteq> [] then Inl AttributeError else Inr (PDate now)
           | BodyNone \<Rightarrow> Inr (PDate now)))"

text \<open>
  \<open>User.username == username\<close>: a stored username is a string, and equals a string only.
\<close>

definition find_user_val :: "user_row list \<Rightarrow> pyval \<Rightarrow> user_row option" where
  "find_user_val us v = (case v of PStr name \<Rightarrow> find_user us name | _ \<Rightarrow> None)"

text \<open>
  \<open>add_reflection\<close>. The feedback is generated before the date is resolved. The
  response is the stored row; how the framework serialises it is not part of the model.
\<close>

definition add_reflection ::
  "builtins \<Rightarrow> reflection_http \<Rightarrow> ai_reply \<Rightarrow> (nat \<Rightarrow> int) \<Rightarrow> state
     \<Rightarrow> (failure + reflection) \<times> state" where
  "add_reflection B req ai clk s =
    (let name = resolve_username req;
         reflection_text = resolve_text req
     in if \<not> truthy name then (Inl (HTTPException 400 ''user is required.''), s)
        else if \<not> truthy reflection_text
        then (Inl (HTTPException 400 ''reflection_text is required.''), s)
        else
          (case find_user_val (users s) name of
             None \<Rightarrow> (Inl (HTTPException 404 ''User not found. Please register first.''), s)
           | Some u \<Rightarrow>
               (let ai_result = generate_ai_feedback B ai (py_str B reflection_text)
                in case reflection_date req (clk 0) of
                     Inl e \<Rightarrow> (Inl (Unhandled e), s)
                   | Inr d \<Rightarrow>
                       (let row = \<lparr>r_user = name, r_date = d,
                                   r_reflection_text = py_str B reflection_text,
                                   r_ai_feedback = feedback ai_result,
                                   r_summary = summary ai_result,
                                   r_xp_reward = xp_reward ai_result\<rparr>
                        in (Inr row, s\<lparr>reflections := reflections s @ [row]\<rparr>)))))"

definition list_reflections :: "string \<Rightarrow> state \<Rightarrow> failure + reflection list" where
  "list_reflections user s =
    (case find_user (users s) user of
       None \<Rightarrow> Inl (HTTPException 404 ''User not found. Please register first.'')
     | Some u \<Rightarrow>
         (let rows = filter (\<lambda>r. r_user r = PStr user) (reflections s)
          in if rows = [] then Inl (HTTPException 404 ''No reflections found for this user.'')
             else Inr rows))"

section \<open>routers/home.py\<close>

text \<open>\<open>s.date.date()\<close>: the day a timestamp falls on, as a day number.\<close>

definition day_of :: "int \<Rightarrow> int" where
  "day_of t = t div 86400000000"

fun consecutive :: "int list \<Rightarrow> int" where
  "consecutive (d1 # d2 # ds) = (if d1 - d2 = 1 then 1 + consecutive (d2 # ds) else 0)"
| "consecutive ds = 0"

text \<open>
  \<open>calculate_streak\<close>: the loop walks the sorted distinct days from the last one down
  and stops at the first gap.
\<close>

definition calculate_streak :: "progress list \<Rightarrow> int" where
  "calculate_streak sessions =
    (if sessions = [] then 0
     else 1 + consecutive (rev (sort (remdups (map (\<lambda>p. day_of (p_date p)) sessions)))))"

text \<open>The four messages of \<open>get_motivation_message\<close>, and the one of an empty dashboard.\<close>

datatype motivation =
    StartFirstQuest
  | EveryMaster
  | NiceStart
  | Awesome int
  | Unstoppable int

definition get_motivation_message :: "int \<Rightarrow> motivation" where
  "get_motivation_message streak =
    (if streak = 0 then EveryMaster
     else if streak < 3 then NiceStart
     else if streak < 7 then Awesome streak
     else Unstoppable streak)"

text \<open>
  The dashboard without its two constant link tables. A recent session keeps its
  timestamp where the source formats the day with \<open>strftime\<close>.
\<close>

record dashboard =
  d_user :: string
  d_total_xp :: "int option"
  d_total_sessions :: nat
  d_current_streak_days :: int
  d_motivation :: motivation
  d_recent_sessions :: "(int \<times> int option \<times> int \<times> string option) list"

text \<open>\<open>sessions.sort(key=..., reverse=True)\<close>: stable, equal keys keep their order.\<close>

definition sort_desc :: "progress list \<Rightarrow> progress list" where
  "sort_desc ps = rev (sort_key p_date (rev ps))"

definition get_dashboard :: "string \<Rightarrow> state \<Rightarrow> failure + dashboard" where
  "get_dashboard user s =
    (case find_user (users s) user of
       None \<Rightarrow> Inl (HTTPException 404 ''User not found. Please register first.'')
     | Some user_obj \<Rightarrow>
         (let sessions = filter (\<lambda>p. p_user p = user) (progress_rows s)
          in if sessions = []
             then Inr \<lparr>d_user = user, d_total_xp = total_xp user_obj, d_total_sessions = 0,
                       d_current_streak_days = 0, d_motivation = StartFirstQuest,
                       d_recent_sessions = []\<rparr>
             else
               (let sorted_sessions = sort_desc sessions;
                    txp = (case total_xp user_obj of
                             None \<Rightarrow> sum_list (map p_xp_gained sorted_sessions)
                           | Some x \<Rightarrow> if x \<noteq> 0 then x
                                       else sum_list (map p_xp_gained sorted_sessions));
                    streak = calculate_streak sorted_sessions
                in Inr \<lparr>d_user = user, d_total_xp = Some txp,
                         d_total_sessions = length sorted_sessions,
                         d_current_streak_days = streak,
                         d_motivation = get_motivation_message streak,
                         d_recent_sessions =
                           map (\<lambda>p. (p_date p, p_duration_minutes p, p_xp_gained p, p_reflection p))
                             (take 3 sorted_sessions)\<rparr>)))"

section \<open>Example data\<close>

text \<open>
  The concrete inputs of the examples below. The sample builtins read a plain decimal
  literal, with or without a sign, as \<open>int\<close> does, and reject every other string; they
  render \<open>None\<close> and the booleans as \<open>str\<close> does, and are arbitrary on the values that
  no example converts; they lower the letters A to Z and leave every other byte, which is
  what \<open>lower\<close> does to an ASCII text. The sample clock shows the same time at every
  reading.
\<close>

definition digit_of :: "char \<Rightarrow> nat option" where
  "digit_of c = map_of (zip ''0123456789'' [0, 1, 2, 3, 4, 5, 6, 7, 8, 9]) c"

fun decimal :: "string \<Rightarrow> nat \<Rightarrow> nat option" where
  "decimal [] acc = Some acc"
| "decimal (c # cs) acc =
    (case digit_of c of None \<Rightarrow> None | Some d \<Rightarrow> decimal cs (10 * acc + d))"

definition ex_int_str :: "string \<Rightarrow> int option" where
  "ex_int_str s =
    (case s of
       [] \<Rightarrow> None
     | c # cs \<Rightarrow>
         if c = CHR ''-'' then (if cs = [] then None else map_option (\<lambda>n. - int n) (decimal cs 0))
         else if c = CHR ''+'' then (if cs = [] then None else map_option int (decimal cs 0))
         else map_option int (decimal s 0))"

definition ex_str_other :: "pyval \<Rightarrow> string" where
  "ex_str_other v =
    (case v of
       PNone \<Rightarrow> ''None''
     | PBool b \<Rightarrow> (if b then ''True'' else ''False'')
     | _ \<Rightarrow> [])"

definition ex_lower :: "string \<Rightarrow> string" where
  "ex_lower s =
    map (\<lambda>c. case map_of (zip ''ABCDEFGHIJKLMNOPQRSTUVWXYZ'' ''abcdefghijklmnopqrstuvwxyz'') c of
               None \<Rightarrow> c | Some d \<Rightarrow> d) s"

definition ex_builtins :: builtins where
  "ex_builtins = \<lparr>int_str = ex_int_str, str_other = ex_str_other, str_lower = ex_lower\<rparr>"

definition ex_clock :: "int \<Rightarrow> nat \<Rightarrow> int" where
  "ex_clock t k = t"

definition ex_session :: session where
  "ex_session = \<lparr>difficulty = ''medium'', started_at = 0, time_limit_seconds = 180,
      lives = 3, score = 2, index = 2, total_questions = 5, questions = QUESTIONS\<rparr>"

definition ex_user :: user_row where
  "ex_user = \<lparr>username = ''bob'', email = None, total_xp = Some 100\<rparr>"

definition ex_state :: state where
  "ex_state = \<lparr>ACTIVE_SESSIONS = [''bob'' \<mapsto> ex_session], users = [ex_user],
      boss_battles = [], reflections = [], progress_rows = []\<rparr>"




definition ex_answer :: "int \<Rightarrow> answer_http" where
  "ex_answer c = \<lparr>payload = Some (AnswerRequest ''bob'' c), q_user = None,
                  q_choice_idx = None\<rparr>"

definition reg_state :: state where
  "reg_state = \<lparr>ACTIVE_SESSIONS = Map.empty, users = [ex_user],
      boss_battles = [], reflections = [], progress_rows = []\<rparr>"

definition ex_start :: "string \<Rightarrow> int \<Rightarrow> StartRequest" where
  "ex_start name n = \<lparr>sr_user = name, sr_difficulty = None, sr_total_questions = Some n,
                       sr_time_limit_seconds = Some 180\<rparr>"

definition short_reply :: ai_reply where
  "short_reply = Replied (PDict [(''questions'',
      PList [PDict [(''question'', PStr ''What does CPU stand for?''),
                    (''choices'', PList [PStr ''Central Processing Unit'', PStr ''Core Power Unit'']),
                    (''answer_idx'', PInt 0)]])])"

definition short_question :: quiz_question where
  "short_question = \<lparr>question = PStr ''What does CPU stand for?'',
      choices = [PStr ''Central Processing Unit'', PStr ''Core Power Unit''], answer_idx = 0\<rparr>"

definition short_session :: "int \<Rightarrow> int \<Rightarrow> session" where
  "short_session sc idx = \<lparr>difficulty = ''medium'', started_at = 0, time_limit_seconds = 180,
      lives = 3, score = sc, index = idx, total_questions = 2, questions = [short_question]\<rparr>"

definition short_state :: "int \<Rightarrow> int \<Rightarrow> state" where
  "short_state sc idx = reg_state\<lparr>ACTIVE_SESSIONS := [''bob'' \<mapsto> short_session sc idx]\<rparr>"

definition ex_reflection_req :: "string \<Rightarrow> reflection_http" where
  "ex_reflection_req name =
     \<lparr>rdata = BodyModel \<lparr>trc_user = name, trc_reflection_text = ''Tired but focused'',
                          trc_date = None\<rparr>,
      rq_user = None, rq_text = None\<rparr>"

definition ex_query_req :: "string \<Rightarrow> string option \<Rightarrow> reflection_http" where
  "ex_query_req name t = \<lparr>rdata = BodyNone, rq_user = Some name, rq_text = t\<rparr>"

definition ex_row :: "int \<Rightarrow> reflection" where
  "ex_row t = \<lparr>r_user = PStr ''bob'', r_date = PDate t, r_reflection_text = ''Tired but focused'',
     r_ai_feedback = PStr (''It sounds like you faced challenges today '' @ em_dash @
                           '' remember, progress is built through persistence.''),
     r_summary = PStr ''Tired but focused'', r_xp_reward = 10\<rparr>"

definition first_question_view :: boss_response where
  "first_question_view = Started ''bob'' 180 3 1 3
     (PStr ''What is the time complexity of binary search?'')
     [PStr ''O(n)'', PStr ''O(log n)'', PStr ''O(n log n)'', PStr ''O(1)'']"

definition ex_query_answer :: "string option \<Rightarrow> int option \<Rightarrow> answer_http" where
  "ex_query_answer name c = \<lparr>payload = None, q_user = name, q_choice_idx = c\<rparr>"

definition ex_anonymous_req :: reflection_http where
  "ex_anonymous_req = \<lparr>rdata = BodyNone, rq_user = None, rq_text = Some ''A good day''\<rparr>"


definition ex_empty_answer :: answer_http where
  "ex_empty_answer = \<lparr>payload = Some (AnswerRequest [] 1), q_user = None, q_choice_idx = None\<rparr>"

section \<open>Sessions after a request\<close>


lemma sessions_end_session:
  "ACTIVE_SESSIONS (snd (end_session u st now s)) = (ACTIVE_SESSIONS s)(u := None)"
  by (auto simp: end_session_def Let_def split: option.splits)

lemma get_session_Inr:
  "get_session s key = Inr (u, sess) \<Longrightarrow> key = PStr u \<and> ACTIVE_SESSIONS s u = Some sess"
  by (auto simp: get_session_def split: pyval.splits option.splits)

lemma sessions_get_current_question:
  "ACTIVE_SESSIONS (snd (get_current_question u clk s)) k = Some x \<Longrightarrow> ACTIVE_SESSIONS s k = Some x"
  by (auto simp: get_current_question_def ended_def sessions_end_session Let_def
      split: sum.splits prod.splits if_splits option.splits)

lemma sessions_get_status:
  "ACTIVE_SESSIONS (snd (get_status u clk s)) k = Some x \<Longrightarrow> ACTIVE_SESSIONS s k = Some x"
  by (auto simp: get_status_def ended_def sessions_end_session Let_def
      split: sum.splits prod.splits if_splits)

lemma sessions_forfeit:
  "ACTIVE_SESSIONS (snd (forfeit u clk s)) k = Some x \<Longrightarrow> ACTIVE_SESSIONS s k = Some x"
  by (auto simp: forfeit_def ended_def sessions_end_session
      split: sum.splits prod.splits if_splits)

lemma length_QUESTIONS: "length QUESTIONS = 5"
  by (simp add: QUESTIONS_def)

lemma sessions_start_boss_battle:
  "ACTIVE_SESSIONS (snd (start_boss_battle B p ai clk s)) k = Some x \<Longrightarrow>
     ACTIVE_SESSIONS s k = Some x
   \<or> (k = sr_user p \<and> ACTIVE_SESSIONS s k = None \<and> lives x = 3 \<and> score x = 0 \<and> index x = 0
       \<and> 1 \<le> total_questions x \<and> total_questions x \<le> 5)"
  by (auto simp: start_boss_battle_def Let_def length_QUESTIONS
      split: option.splits if_splits list.splits)

lemma submit_answer_found:
  assumes "resolve_answer B req = (PStr u, Some c)" and "u \<noteq> []"
    and "ACTIVE_SESSIONS s u = Some sess"
  shows "submit_answer B req clk s =
    (if time_remaining sess (clk 0) = 0 then ended (end_session u ''timeout'' (clk 1) s)
     else if total_questions sess \<le> index sess
     then ended (end_session u ''completed'' (clk 1) s)
     else
       (case py_index (questions sess) (index sess) of
          None \<Rightarrow> (Inl (Unhandled IndexError), s)
        | Some q \<Rightarrow>
            (let is_correct = (c = answer_idx q);
                 sess1 = (if is_correct then sess\<lparr>score := score sess + 1\<rparr>
                          else sess\<lparr>lives := lives sess - 1\<rparr>);
                 feedback = (if is_correct then ''Correct! +20 XP'' else ''Wrong! -1 life'');
                 sess2 = sess1\<lparr>index := index sess1 + 1\<rparr>;
                 s' = s\<lparr>ACTIVE_SESSIONS := (ACTIVE_SESSIONS s)(u \<mapsto> sess2)\<rparr>
             in if lives sess2 \<le> 0
                then ended (end_session u ''out_of_lives'' (clk 1) s')
                else if total_questions sess2 \<le> index sess2
                then ended (end_session u ''completed'' (clk 1) s')
                else
                  (case py_index (questions sess2) (index sess2) of
                     None \<Rightarrow> (Inl (Unhandled IndexError), s')
                   | Some next_q \<Rightarrow>
                       (Inr (Answered is_correct feedback (lives sess2)
                               (score sess2) (time_remaining sess2 (clk 1))
                               (index sess2 + 1) (total_questions sess2)
                               (question next_q) (choices next_q)),
                        s')))))"
  using assms by (simp add: submit_answer_def get_session_def)

lemma submit_answer_not_found:
  "snd (submit_answer B req clk s) = s
   \<or> (\<exists>u c sess. resolve_answer B req = (PStr u, Some c) \<and> u \<noteq> [] \<and> ACTIVE_SESSIONS s u = Some sess)"
proof (cases "resolve_answer B req")
  case (Pair name copt)
  show ?thesis
  proof (cases "truthy name")
    case False
    with Pair show ?thesis by (simp add: submit_answer_def)
  next
    case True
    show ?thesis
    proof (cases copt)
      case None
      with Pair show ?thesis by (simp add: submit_answer_def)
    next
      case (Some c)
      show ?thesis
      proof (cases "get_session s name")
        case (Inl e)
        with Pair Some show ?thesis by (simp add: submit_answer_def)
      next
        case (Inr us)
        obtain u sess where us: "us = (u, sess)" by (cases us)
        from Inr us have "name = PStr u" "ACTIVE_SESSIONS s u = Some sess"
          using get_session_Inr by blast+
        with Pair Some True show ?thesis by auto
      qed
    qed
  qed
qed

lemma sessions_submit_answer:
  assumes "ACTIVE_SESSIONS (snd (submit_answer B req clk s)) k = Some x"
  shows "ACTIVE_SESSIONS s k = Some x
   \<or> (\<exists>y. ACTIVE_SESSIONS s k = Some y \<and> 1 \<le> lives x \<and> index x < total_questions x
          \<and> index x = index y + 1 \<and> total_questions x = total_questions y
          \<and> (score x = score y + 1 \<and> lives x = lives y \<or> score x = score y \<and> lives x = lives y - 1))"
proof -
  from submit_answer_not_found [of B req clk s]
  consider (same) "snd (submit_answer B req clk s) = s"
    | (found) u c sess where "resolve_answer B req = (PStr u, Some c)" "u \<noteq> []"
        "ACTIVE_SESSIONS s u = Some sess"
    by blast
  then show ?thesis
  proof cases
    case same
    with assms show ?thesis by simp
  next
    case found
    note eq = submit_answer_found [OF found, of clk]
    show ?thesis
    proof (cases "time_remaining sess (clk 0) = 0 \<or> total_questions sess \<le> index sess")
      case True
      with assms eq show ?thesis
        by (auto simp: ended_def sessions_end_session split: if_splits)
    next
      case False
      show ?thesis
      proof (cases "py_index (questions sess) (index sess)")
        case None
        with False assms eq show ?thesis by simp
      next
        case (Some q)
        with False assms eq found(3) show ?thesis
          by (cases "k = u")
            (auto simp: ended_def sessions_end_session Let_def split: if_splits option.splits)
      qed
    qed
  qed
qed

lemma boss_handler_sessions:
  assumes "ACTIVE_SESSIONS (snd (boss_handler B r clk s)) k = Some x"
  shows "ACTIVE_SESSIONS s k = Some x
   \<or> (ACTIVE_SESSIONS s k = None \<and> lives x = 3 \<and> score x = 0 \<and> index x = 0
       \<and> 1 \<le> total_questions x \<and> total_questions x \<le> 5)
   \<or> (\<exists>y. ACTIVE_SESSIONS s k = Some y \<and> 1 \<le> lives x \<and> index x < total_questions x
          \<and> index x = index y + 1 \<and> total_questions x = total_questions y
          \<and> (score x = score y + 1 \<and> lives x = lives y \<or> score x = score y \<and> lives x = lives y - 1))"
proof (cases r)
  case GetInfo
  with assms show ?thesis by simp
next
  case (PostStart p ai)
  with assms sessions_start_boss_battle [of B p ai clk s k x] show ?thesis by auto
next
  case (GetQuestion u)
  with assms sessions_get_current_question [of u clk s k x] show ?thesis by auto
next
  case (PostAnswer a)
  with assms sessions_submit_answer [of B a clk s k x] show ?thesis by auto
next
  case (GetStatus u)
  with assms sessions_get_status [of u clk s k x] show ?thesis by auto
next
  case (PostForfeit u)
  with assms sessions_forfeit [of u clk s k x] show ?thesis by auto
qed


lemma boss_handler_inv:
  assumes "\<forall>u y. ACTIVE_SESSIONS s u = Some y \<longrightarrow> sess_inv y"
    and "ACTIVE_SESSIONS (snd (boss_handler B r clk s)) k = Some x"
  shows "sess_inv x"
proof -
  from boss_handler_sessions [OF assms(2)]
  consider "ACTIVE_SESSIONS s k = Some x"
    | "lives x = 3" "score x = 0" "index x = 0" "1 \<le> total_questions x" "total_questions x \<le> 5"
    | y where "ACTIVE_SESSIONS s k = Some y" "1 \<le> lives x" "index x < total_questions x"
        "index x = index y + 1" "total_questions x = total_questions y"
        "score x = score y + 1 \<and> lives x = lives y \<or> score x = score y \<and> lives x = lives y - 1"
    by blast
  then show ?thesis
  proof cases
    case 1
    with assms(1) show ?thesis by blast
  next
    case 2
    then show ?thesis by (simp add: sess_inv_def)
  next
    case 3
    from assms(1) 3(1) have "sess_inv y" by blast
    with 3 show ?thesis by (auto simp: sess_inv_def)
  qed
qed

lemma run_sess_inv:
  assumes "\<forall>u y. ACTIVE_SESSIONS s u = Some y \<longrightarrow> sess_inv y"
  shows "\<forall>u x. ACTIVE_SESSIONS (run B reqs s) u = Some x \<longrightarrow> sess_inv x"
  using assms
proof (induction reqs arbitrary: s)
  case Nil
  then show ?case by simp
next
  case (Cons rc rest)
  have "\<forall>u y. ACTIVE_SESSIONS (snd (boss_handler B (fst rc) (snd rc) s)) u = Some y \<longrightarrow> sess_inv y"
    using boss_handler_inv [OF Cons.prems] by blast
  from Cons.IH [OF this] show ?case by simp
qed

lemma find_user_credit_xp:
  "find_user (credit_xp us name xp) name' =
     (if name' = name
      then map_option (\<lambda>u. u\<lparr>total_xp := Some ((case total_xp u of None \<Rightarrow> 0 | Some x \<Rightarrow> x) + xp)\<rparr>)
             (find_user us name)
      else find_user us name')"
  by (induction us) (auto simp: find_user_def)

lemma get_session_none:
  "ACTIVE_SESSIONS s user = None \<Longrightarrow>
     get_session s (PStr user) = Inl (HTTPException 404 ''No active boss battle. Start one first.'')"
  by (simp add: get_session_def)

lemma get_current_question_found:
  assumes "ACTIVE_SESSIONS s user = Some sess"
  shows "get_current_question user clk s =
    (if time_remaining sess (clk 0) = 0 then ended (end_session user ''timeout'' (clk 1) s)
     else if lives sess \<le> 0 then ended (end_session user ''out_of_lives'' (clk 1) s)
     else if total_questions sess \<le> index sess
     then ended (end_session user ''completed'' (clk 1) s)
     else
       (case py_index (questions sess) (index sess) of
          None \<Rightarrow> (Inl (Unhandled IndexError), s)
        | Some q \<Rightarrow>
            (Inr (CurrentQuestion (question q) (choices q) (index sess + 1)
                    (total_questions sess) (lives sess)
                    (time_remaining sess (clk 1)) (score sess)),
             s)))"
  using assms by (simp add: get_current_question_def get_session_def Let_def)

lemma ended_end_session:
  assumes "ACTIVE_SESSIONS s user = Some sess"
  shows "fst (ended (end_session user status now s)) =
           Inr (Ended status (score sess) (20 * score sess) (total_questions sess) (lives sess))"
    and "ACTIVE_SESSIONS (snd (ended (end_session user status now s))) user = None"
  using assms by (simp_all add: ended_def end_session_def Let_def)

text \<open>On a text without continuation bytes, code points are bytes.\<close>

lemma str_take_plain:
  "\<forall>c \<in> set s. \<not> is_continuation c \<Longrightarrow> str_take n s = take n s \<and> str_len s = length s"
proof (induction s arbitrary: n)
  case Nil
  then show ?case by (simp add: str_len_def)
next
  case (Cons c s)
  then show ?case by (cases n) (simp_all add: str_len_def)
qed

section \<open>Terminal transitions (claim C1)\<close>

text \<open>
  Claim C1. When \<open>_end_session\<close> finds the user's session, whatever the status of the
  terminal transition, it answers with that status, appends one \<open>BossBattle\<close> row with
  the session's score, \<open>total_questions\<close> and difficulty, an \<open>xp_reward\<close> of 20 times the
  score and \<open>completed = True\<close>, adds the same 20 times the score to the \<open>total_xp\<close> of the
  user's row (an unset \<open>total_xp\<close> counts as 0; no other user's row changes), and removes
  the session from \<open>_ACTIVE_SESSIONS\<close>. Afterwards every request for that user's session
  fails and changes nothing: \<open>GET /boss/question\<close>, \<open>GET /boss/status\<close> and
  \<open>POST /boss/forfeit\<close> with status 404, and \<open>POST /boss/answer\<close> with an error too.
\<close>

theorem end_session_terminal:
  assumes "ACTIVE_SESSIONS s user = Some sess"
  shows "fst (end_session user status now s) =
           Ended status (score sess) (20 * score sess) (total_questions sess) (lives sess)
       \<and> boss_battles (snd (end_session user status now s)) =
           boss_battles s @
             [\<lparr>bb_user = user, bb_date = now, bb_score = score sess,
               bb_total_questions = total_questions sess, bb_xp_reward = 20 * score sess,
               bb_difficulty = difficulty sess, bb_completed = True\<rparr>]
       \<and> find_user (users (snd (end_session user status now s))) user =
           map_option
             (\<lambda>u. u\<lparr>total_xp := Some ((case total_xp u of None \<Rightarrow> 0 | Some x \<Rightarrow> x) + 20 * score sess)\<rparr>)
             (find_user (users s) user)
       \<and> (\<forall>other. other \<noteq> user \<longrightarrow>
             find_user (users (snd (end_session user status now s))) other = find_user (users s) other)
       \<and> ACTIVE_SESSIONS (snd (end_session user status now s)) = (ACTIVE_SESSIONS s)(user := None)
       \<and> (\<forall>clk. get_current_question user clk (snd (end_session user status now s)) =
             (Inl (HTTPException 404 ''No active boss battle. Start one first.''),
              snd (end_session user status now s)))
       \<and> (\<forall>clk. get_status user clk (snd (end_session user status now s)) =
             (Inl (HTTPException 404 ''No active boss battle. Start one first.''),
              snd (end_session user status now s)))
       \<and> (\<forall>clk. forfeit user clk (snd (end_session user status now s)) =
             (Inl (HTTPException 404 ''No active boss battle. Start one first.''),
              snd (end_session user status now s)))
       \<and> (\<forall>B req clk. fst (resolve_answer B req) = PStr user \<longrightarrow>
             isl (fst (submit_answer B req clk (snd (end_session user status now s)))) \<and>
             snd (submit_answer B req clk (snd (end_session user status now s))) =
               snd (end_session user status now s))"
proof -
  let ?s' = "snd (end_session user status now s)"
  have gone: "ACTIVE_SESSIONS ?s' user = None"
    using assms by (simp add: end_session_def Let_def)
  have a: "\<forall>B req clk. fst (resolve_answer B req) = PStr user \<longrightarrow>
             isl (fst (submit_answer B req clk ?s')) \<and> snd (submit_answer B req clk ?s') = ?s'"
    using gone by (auto simp: submit_answer_def get_session_def split: prod.splits option.splits)
  show ?thesis
    using assms gone a
    by (simp add: end_session_def Let_def find_user_credit_xp get_current_question_def
        get_status_def forfeit_def get_session_def mult.commute)
qed

text \<open>
  An instance: the session of \<open>bob\<close> with score 2 is completed at time 7; \<open>bob\<close> had
  100 XP and has 140 afterwards.
\<close>

theorem end_session_terminal_witness:
  "ACTIVE_SESSIONS ex_state ''bob'' = Some ex_session
   \<and> fst (end_session ''bob'' ''completed'' 7 ex_state) = Ended ''completed'' 2 40 5 3
   \<and> boss_battles (snd (end_session ''bob'' ''completed'' 7 ex_state)) =
       [\<lparr>bb_user = ''bob'', bb_date = 7, bb_score = 2, bb_total_questions = 5,
         bb_xp_reward = 40, bb_difficulty = ''medium'', bb_completed = True\<rparr>]
   \<and> find_user (users (snd (end_session ''bob'' ''completed'' 7 ex_state))) ''bob'' =
       Some (ex_user\<lparr>total_xp := Some 140\<rparr>)
   \<and> ACTIVE_SESSIONS (snd (end_session ''bob'' ''completed'' 7 ex_state)) ''bob'' = None
   \<and> find_user (users (snd (end_session ''bob'' ''completed'' 7 ex_state))) ''alice'' =
       find_user (users ex_state) ''alice''
   \<and> fst (get_status ''bob'' (ex_clock 8) (snd (end_session ''bob'' ''completed'' 7 ex_state))) =
       Inl (HTTPException 404 ''No active boss battle. Start one first.'')
   \<and> fst (resolve_answer ex_builtins (ex_answer 1)) = PStr ''bob''
   \<and> submit_answer ex_builtins (ex_answer 1) (ex_clock 8)
         (snd (end_session ''bob'' ''completed'' 7 ex_state)) =
       (Inl (HTTPException 404 ''No active boss battle. Start one first.''),
        snd (end_session ''bob'' ''completed'' 7 ex_state))"
proof -
  have h: "ACTIVE_SESSIONS ex_state ''bob'' = Some ex_session"
    by (simp add: ex_state_def)
  have f: "find_user (users ex_state) ''bob'' = Some ex_user"
    by (simp add: ex_state_def find_user_def ex_user_def)
  have r: "resolve_answer ex_builtins (ex_answer 1) = (PStr ''bob'', Some 1)"
    by (simp add: resolve_answer_def ex_answer_def)
  note T = end_session_terminal [OF h, of "''completed''" 7]
  have g: "ACTIVE_SESSIONS (snd (end_session ''bob'' ''completed'' 7 ex_state)) ''bob'' = None"
    using T by simp
  have a: "submit_answer ex_builtins (ex_answer 1) (ex_clock 8)
         (snd (end_session ''bob'' ''completed'' 7 ex_state)) =
       (Inl (HTTPException 404 ''No active boss battle. Start one first.''),
        snd (end_session ''bob'' ''completed'' 7 ex_state))"
    using g r by (simp add: submit_answer_def get_session_def)
  have o: "find_user (users (snd (end_session ''bob'' ''completed'' 7 ex_state))) ''alice'' =
       find_user (users ex_state) ''alice''"
    using T by simp
  from T f r a o show ?thesis
    by (simp add: h ex_session_def ex_state_def ex_user_def)
qed

section \<open>Answering a question (claim C2)\<close>

text \<open>
  What \<open>submit_answer\<close> does for a session that has time left, an index below
  \<open>total_questions\<close> and a question at that index: the index grows by 1, a correct choice
  adds 1 to the score and leaves the lives, any other choice takes one life and leaves the
  score. The new values are those of the session in the map, or those of the final
  response when the answer ends the session.
\<close>

lemma submit_answer_advances:
  assumes "ACTIVE_SESSIONS s user = Some sess" and "resolve_answer B req = (PStr user, Some c)"
    and "user \<noteq> []" and "time_remaining sess (clk 0) \<noteq> 0"
    and "index sess < total_questions sess"
    and "py_index (questions sess) (index sess) = Some q"
  shows "\<exists>sess2. index sess2 = index sess + 1
           \<and> (if c = answer_idx q then score sess2 = score sess + 1 \<and> lives sess2 = lives sess
              else lives sess2 = lives sess - 1 \<and> score sess2 = score sess)
           \<and> (ACTIVE_SESSIONS (snd (submit_answer B req clk s)) user = Some sess2
              \<or> ACTIVE_SESSIONS (snd (submit_answer B req clk s)) user = None
                \<and> (\<exists>status. fst (submit_answer B req clk s) =
                      Inr (Ended status (score sess2) (20 * score sess2) (total_questions sess)
                            (lives sess2))))"
proof -
  let ?sess2 = "(if c = answer_idx q then sess\<lparr>score := score sess + 1\<rparr>
                 else sess\<lparr>lives := lives sess - 1\<rparr>)\<lparr>index := index sess + 1\<rparr>"
  let ?s' = "s\<lparr>ACTIVE_SESSIONS := (ACTIVE_SESSIONS s)(user \<mapsto> ?sess2)\<rparr>"
  have m: "ACTIVE_SESSIONS ?s' user = Some ?sess2" by simp
  note e = ended_end_session [OF m]
  have "ACTIVE_SESSIONS (snd (submit_answer B req clk s)) user = Some ?sess2
     \<or> ACTIVE_SESSIONS (snd (submit_answer B req clk s)) user = None
       \<and> (\<exists>status. fst (submit_answer B req clk s) =
             Inr (Ended status (score ?sess2) (20 * score ?sess2) (total_questions sess)
                   (lives ?sess2)))"
    using assms(4,5,6) e [of "''out_of_lives''" "clk 1"] e [of "''completed''" "clk 1"]
    by (simp add: submit_answer_found [OF assms(2,3,1)] Let_def split: option.splits) auto
  then show ?thesis
    by (intro exI [of _ ?sess2]) auto
qed

lemma generate_short: "generate_ai_questions ex_builtins short_reply 2 = [short_question]"
  by (simp add: generate_ai_questions_def short_reply_def dict_get_def slice_to_def
      short_question_def)

text \<open>
  Claim C2 at a failing input. The chat-completion API is asked for two questions and
  returns one that passes the validation; \<open>_generate_ai_questions\<close> accepts the short
  list, and \<open>start_boss_battle\<close> stores it with \<open>total_questions = 2\<close>. The first answer
  is counted (score 1, index 1) and then fails with \<open>IndexError\<close> on the read of the next
  question. The session is still active, has 178 seconds left and its index 1 is below
  \<open>total_questions\<close>, yet a further answer fails with \<open>IndexError\<close> on the read of the
  current question and leaves the index at 1; so does \<open>GET /boss/question\<close>.
\<close>

theorem short_quiz_breaks_answer:
  "start_boss_battle ex_builtins (ex_start ''bob'' 2) short_reply (ex_clock 0) reg_state =
     (Inr (Started ''bob'' 180 3 1 2 (PStr ''What does CPU stand for?'')
            [PStr ''Central Processing Unit'', PStr ''Core Power Unit'']),
      short_state 0 0)
   \<and> submit_answer ex_builtins (ex_answer 0) (ex_clock 1000000) (short_state 0 0) =
       (Inl (Unhandled IndexError), short_state 1 1)
   \<and> time_remaining (short_session 1 1) (ex_clock 2000000 0) = 178
   \<and> index (short_session 1 1) < total_questions (short_session 1 1)
   \<and> submit_answer ex_builtins (ex_answer 0) (ex_clock 2000000) (short_state 1 1) =
       (Inl (Unhandled IndexError), short_state 1 1)
   \<and> get_current_question ''bob'' (ex_clock 2000000) (short_state 1 1) =
       (Inl (Unhandled IndexError), short_state 1 1)"
proof -
  have a: "start_boss_battle ex_builtins (ex_start ''bob'' 2) short_reply (ex_clock 0) reg_state =
     (Inr (Started ''bob'' 180 3 1 2 (PStr ''What does CPU stand for?'')
            [PStr ''Central Processing Unit'', PStr ''Core Power Unit'']),
      short_state 0 0)"
    by (simp add: start_boss_battle_def ex_start_def reg_state_def find_user_def ex_user_def
        length_QUESTIONS generate_short short_state_def short_session_def ex_clock_def
        short_question_def)
  have r: "resolve_answer ex_builtins (ex_answer 0) = (PStr ''bob'', Some 0)"
    by (simp add: resolve_answer_def ex_answer_def)
  have b: "submit_answer ex_builtins (ex_answer 0) (ex_clock 1000000) (short_state 0 0) =
       (Inl (Unhandled IndexError), short_state 1 1)"
    by (subst submit_answer_found [OF r, where sess = "short_session 0 0"])
      (simp_all add: short_state_def short_session_def time_remaining_def trunc_div_def
        ex_clock_def py_index_def short_question_def reg_state_def)
  have c: "time_remaining (short_session 1 1) (ex_clock 2000000 0) = 178"
    by (simp add: short_session_def time_remaining_def trunc_div_def ex_clock_def)
  have d: "submit_answer ex_builtins (ex_answer 0) (ex_clock 2000000) (short_state 1 1) =
       (Inl (Unhandled IndexError), short_state 1 1)"
    by (subst submit_answer_found [OF r, where sess = "short_session 1 1"])
      (simp_all add: short_state_def short_session_def time_remaining_def trunc_div_def
        ex_clock_def py_index_def)
  have e: "get_current_question ''bob'' (ex_clock 2000000) (short_state 1 1) =
       (Inl (Unhandled IndexError), short_state 1 1)"
    by (subst get_current_question_found [where sess = "short_session 1 1"])
      (simp_all add: short_state_def short_session_def time_remaining_def trunc_div_def
        ex_clock_def py_index_def)
  from a b c d e show ?thesis by (simp add: short_session_def)
qed

section \<open>Timeouts (claim C3)\<close>




section \<open>Running out of lives (claim C4)\<close>




section \<open>The XP of a reflection (claim C5)\<close>

lemma xp_mock: "xp_reward (mock_ai_feedback B rt) = 10"
  by (simp add: mock_ai_feedback_def Let_def)

lemma xp_generate:
  "5 \<le> xp_reward (generate_ai_feedback B ai rt) \<and> xp_reward (generate_ai_feedback B ai rt) \<le> 25"
  by (auto simp: generate_ai_feedback_def xp_mock Let_def
      split: ai_reply.splits pyval.splits sum.splits py_exc.splits)

lemma add_reflection_Inr:
  assumes "add_reflection B req ai clk s = (Inr row, s')"
  shows "s' = s\<lparr>reflections := reflections s @ [row]\<rparr>
       \<and> r_xp_reward row = xp_reward (generate_ai_feedback B ai (py_str B (resolve_text req)))"
  using assms
  by (auto simp: add_reflection_def Let_def split: if_splits option.splits sum.splits)

text \<open>
  Claim C5. The \<open>xp_reward\<close> that \<open>generate_ai_feedback\<close> returns lies in the closed
  interval from 5 to 25, whatever the chat-completion API does: the heuristic fallback
  assigns 10; on the AI path a value that \<open>int\<close> converts is clamped to the interval, and
  a value on which \<open>int\<close> raises \<open>ValueError\<close> or \<open>TypeError\<close> gives 10. So every row that
  \<open>POST /text-ai/\<close> creates, the one row it appends to the table on success, has an
  \<open>xp_reward\<close> between 5 and 25.
\<close>

theorem reflection_xp_in_range:
  "5 \<le> xp_reward (generate_ai_feedback B ai rt)
   \<and> xp_reward (generate_ai_feedback B ai rt) \<le> 25
   \<and> xp_reward (mock_ai_feedback B rt) = 10
   \<and> (ai = Replied (PDict d) \<and> map_of d ''xp_reward'' = Some v
        \<and> (py_int B v = Inl ValueError \<or> py_int B v = Inl TypeError)
      \<longrightarrow> xp_reward (generate_ai_feedback B ai rt) = 10)
   \<and> (ai = Replied (PDict d) \<and> map_of d ''xp_reward'' = Some v \<and> py_int B v = Inr n
      \<longrightarrow> xp_reward (generate_ai_feedback B ai rt) = max 5 (min 25 n))
   \<and> (add_reflection B req ai clk s = (Inr row, s')
      \<longrightarrow> reflections s' = reflections s @ [row] \<and> 5 \<le> r_xp_reward row \<and> r_xp_reward row \<le> 25)"
proof -
  have a: "ai = Replied (PDict d) \<and> map_of d ''xp_reward'' = Some v
        \<and> (py_int B v = Inl ValueError \<or> py_int B v = Inl TypeError)
      \<longrightarrow> xp_reward (generate_ai_feedback B ai rt) = 10"
    by (auto simp: generate_ai_feedback_def Let_def)
  have b: "ai = Replied (PDict d) \<and> map_of d ''xp_reward'' = Some v \<and> py_int B v = Inr n
      \<longrightarrow> xp_reward (generate_ai_feedback B ai rt) = max 5 (min 25 n)"
    by (auto simp: generate_ai_feedback_def Let_def)
  have c: "add_reflection B req ai clk s = (Inr row, s')
      \<longrightarrow> reflections s' = reflections s @ [row] \<and> 5 \<le> r_xp_reward row \<and> r_xp_reward row \<le> 25"
    using add_reflection_Inr [of B req ai clk s row s'] xp_generate by auto
  show ?thesis
    by (insert xp_generate [of B ai rt] xp_mock [of B rt] a b c, intro conjI; simp)
qed

text \<open>
  Instances: replies with an \<open>xp_reward\<close> of 40, of \<open>"lots"\<close> and of -3 give 25, 10 and
  5; a reflection of \<open>bob\<close> while the call raises is stored with 10.
\<close>

theorem reflection_xp_in_range_witness:
  "xp_reward (generate_ai_feedback ex_builtins (Replied (PDict [(''xp_reward'', PInt 40)])) ''ok'') = 25
   \<and> py_int ex_builtins (PStr ''lots'') = Inl ValueError
   \<and> xp_reward (generate_ai_feedback ex_builtins (Replied (PDict [(''xp_reward'', PStr ''lots'')])) ''ok'') = 10
   \<and> py_int ex_builtins (PInt (- 3)) = Inr (- 3)
   \<and> xp_reward (generate_ai_feedback ex_builtins (Replied (PDict [(''xp_reward'', PInt (- 3))])) ''ok'') = 5
   \<and> add_reflection ex_builtins (ex_reflection_req ''bob'') Raises (ex_clock 9) reg_state =
        (Inr (ex_row 9), reg_state\<lparr>reflections := [ex_row 9]\<rparr>)
   \<and> 5 \<le> r_xp_reward (ex_row 9) \<and> r_xp_reward (ex_row 9) \<le> 25"
proof -
  have p1: "py_int ex_builtins (PStr ''lots'') = Inl ValueError"
    by (simp add: ex_builtins_def ex_int_str_def digit_of_def)
  have p2: "py_int ex_builtins (PInt (- 3)) = Inr (- 3)"
    by simp
  have ar: "add_reflection ex_builtins (ex_reflection_req ''bob'') Raises (ex_clock 9) reg_state =
        (Inr (ex_row 9), reg_state\<lparr>reflections := [ex_row 9]\<rparr>)"
    by (simp add: add_reflection_def resolve_username_def resolve_text_def incoming_def
        ex_reflection_req_def dict_get_def py_or_def find_user_val_def find_user_def reg_state_def
        ex_user_def reflection_date_def generate_ai_feedback_def mock_ai_feedback_def
        ex_builtins_def ex_lower_def
        shorten_def str_len_def is_continuation_def ex_row_def ex_clock_def Let_def)
  note A = reflection_xp_in_range [where B = ex_builtins and ai = "Replied (PDict [(''xp_reward'', PInt 40)])"
      and rt = "''ok''" and d = "[(''xp_reward'', PInt 40)]" and v = "PInt 40" and n = 40]
  note B = reflection_xp_in_range [where B = ex_builtins
      and ai = "Replied (PDict [(''xp_reward'', PStr ''lots'')])"
      and rt = "''ok''" and d = "[(''xp_reward'', PStr ''lots'')]" and v = "PStr ''lots''"]
  note C = reflection_xp_in_range [where B = ex_builtins
      and ai = "Replied (PDict [(''xp_reward'', PInt (- 3))])"
      and rt = "''ok''" and d = "[(''xp_reward'', PInt (- 3))]" and v = "PInt (- 3)" and n = "- 3"]
  note D = reflection_xp_in_range [where B = ex_builtins and req = "ex_reflection_req ''bob''"
      and ai = Raises and clk = "ex_clock 9" and s = reg_state and row = "ex_row 9"
      and s' = "reg_state\<lparr>reflections := [ex_row 9]\<rparr>"]
  have a: "xp_reward (generate_ai_feedback ex_builtins (Replied (PDict [(''xp_reward'', PInt 40)])) ''ok'') = 25"
    using A by simp
  have b: "xp_reward (generate_ai_feedback ex_builtins (Replied (PDict [(''xp_reward'', PStr ''lots'')])) ''ok'') = 10"
    using B p1 by simp
  have c: "xp_reward (generate_ai_feedback ex_builtins (Replied (PDict [(''xp_reward'', PInt (- 3))])) ''ok'') = 5"
    using C by simp
  have d: "5 \<le> r_xp_reward (ex_row 9) \<and> r_xp_reward (ex_row 9) \<le> 25"
    using D ar by simp
  from a b c d p1 p2 ar show ?thesis by simp
qed

section \<open>Failures of the chat-completion API (claim C6)\<close>

lemma slice_to_QUESTIONS: "slice_to QUESTIONS (min n 5) = slice_to QUESTIONS n"
  by (simp add: slice_to_def min_def length_QUESTIONS)

lemma slice_to_nonempty: "xs \<noteq> [] \<Longrightarrow> 1 \<le> n \<Longrightarrow> slice_to xs n \<noteq> []"
  by (cases xs) (auto simp: slice_to_def take_Cons split: nat.splits)

lemma generate_ai_questions_nonempty: "1 \<le> tot \<Longrightarrow> generate_ai_questions B ai tot \<noteq> []"
  by (auto simp: generate_ai_questions_def Let_def slice_to_nonempty QUESTIONS_def
      split: ai_reply.splits)

lemma start_error_any_reply:
  assumes "fst (start_boss_battle B p ai clk s) = Inl e"
  shows "fst (start_boss_battle B p other clk s) = Inl e"
proof (cases "find_user (users s) (sr_user p)")
  case None
  with assms show ?thesis by (simp add: start_boss_battle_def)
next
  case (Some u)
  show ?thesis
  proof (cases "sr_total_questions p")
    case None
    with Some assms show ?thesis by (simp add: start_boss_battle_def)
  next
    case tq: (Some n)
    show ?thesis
    proof (cases "n < 1 \<or> ACTIVE_SESSIONS s (sr_user p) \<noteq> None")
      case True
      with Some tq assms show ?thesis by (auto simp: start_boss_battle_def)
    next
      case False
      then have "1 \<le> min n (int (length QUESTIONS))"
        by (simp add: length_QUESTIONS)
      from generate_ai_questions_nonempty [OF this, of B ai]
      obtain q rest where "generate_ai_questions B ai (min n (int (length QUESTIONS))) = q # rest"
        by (cases "generate_ai_questions B ai (min n (int (length QUESTIONS)))") auto
      with False Some tq assms show ?thesis
        by (simp add: start_boss_battle_def Let_def)
    qed
  qed
qed

lemma add_reflection_error_any_reply:
  assumes "fst (add_reflection B req ai clk s) = Inl e"
  shows "fst (add_reflection B req other clk s) = Inl e"
  using assms
  by (auto simp: add_reflection_def Let_def split: if_splits option.splits sum.splits)

text \<open>
  Claim C6. When no client is configured or the call raises, \<open>generate_ai_feedback\<close>
  returns exactly \<open>_mock_ai_feedback\<close> of the text and \<open>_generate_ai_questions\<close> returns
  the static bank cut to the requested count. So a \<open>POST /text-ai/\<close> that names a
  registered user and a text (and whose date can be resolved) succeeds and stores the row
  built from the heuristic's feedback, summary and XP for the reflection text; and a
  \<open>POST /boss/start\<close> of a registered user without a session, for at least one question,
  succeeds with the first question of the bank and stores the first \<open>total_questions\<close>
  questions of the bank. No error comes from the failure of the API: an error that either
  endpoint answers then is the error it answers to the same request whatever the API
  replies.
\<close>

theorem ai_failure_falls_back:
  assumes "ai = Unconfigured \<or> ai = Raises"
  shows "generate_ai_feedback B ai rt = mock_ai_feedback B rt
   \<and> generate_ai_questions B ai n = slice_to QUESTIONS n
   \<and> (truthy (resolve_username req) \<and> truthy (resolve_text req)
        \<and> find_user_val (users s) (resolve_username req) = Some u
        \<and> reflection_date req (clk 0) = Inr d
      \<longrightarrow> add_reflection B req ai clk s =
            (Inr \<lparr>r_user = resolve_username req, r_date = d,
                  r_reflection_text = py_str B (resolve_text req),
                  r_ai_feedback = feedback (mock_ai_feedback B (py_str B (resolve_text req))),
                  r_summary = summary (mock_ai_feedback B (py_str B (resolve_text req))),
                  r_xp_reward = xp_reward (mock_ai_feedback B (py_str B (resolve_text req)))\<rparr>,
             s\<lparr>reflections := reflections s @
                  [\<lparr>r_user = resolve_username req, r_date = d,
                    r_reflection_text = py_str B (resolve_text req),
                    r_ai_feedback = feedback (mock_ai_feedback B (py_str B (resolve_text req))),
                    r_summary = summary (mock_ai_feedback B (py_str B (resolve_text req))),
                    r_xp_reward = xp_reward (mock_ai_feedback B (py_str B (resolve_text req)))\<rparr>]\<rparr>))
   \<and> (find_user (users s) (sr_user p) = Some u \<and> sr_total_questions p = Some n \<and> 1 \<le> n
        \<and> ACTIVE_SESSIONS s (sr_user p) = None
      \<longrightarrow> fst (start_boss_battle B p ai clk s) =
            Inr (Started (sr_user p)
                  (case sr_time_limit_seconds p of None \<Rightarrow> 180 | Some t \<Rightarrow> if t \<noteq> 0 then t else 180)
                  3 1 (min n 5) (question (QUESTIONS ! 0)) (choices (QUESTIONS ! 0)))
          \<and> map_option questions (ACTIVE_SESSIONS (snd (start_boss_battle B p ai clk s)) (sr_user p)) =
              Some (take (nat n) QUESTIONS)
          \<and> map_option total_questions
               (ACTIVE_SESSIONS (snd (start_boss_battle B p ai clk s)) (sr_user p)) =
              Some (min n 5))
   \<and> (fst (add_reflection B req ai clk s) = Inl e
      \<longrightarrow> fst (add_reflection B req other clk s) = Inl e)
   \<and> (fst (start_boss_battle B p ai clk s) = Inl e
      \<longrightarrow> fst (start_boss_battle B p other clk s) = Inl e)"
proof -
  have f: "generate_ai_feedback B ai rt = mock_ai_feedback B rt" for rt
    using assms by (auto simp: generate_ai_feedback_def)
  have g: "generate_ai_questions B ai n = slice_to QUESTIONS n" for n
    using assms by (auto simp: generate_ai_questions_def)
  have a: "truthy (resolve_username req) \<and> truthy (resolve_text req)
        \<and> find_user_val (users s) (resolve_username req) = Some u
        \<and> reflection_date req (clk 0) = Inr d
      \<longrightarrow> add_reflection B req ai clk s =
            (Inr \<lparr>r_user = resolve_username req, r_date = d,
                  r_reflection_text = py_str B (resolve_text req),
                  r_ai_feedback = feedback (mock_ai_feedback B (py_str B (resolve_text req))),
                  r_summary = summary (mock_ai_feedback B (py_str B (resolve_text req))),
                  r_xp_reward = xp_reward (mock_ai_feedback B (py_str B (resolve_text req)))\<rparr>,
             s\<lparr>reflections := reflections s @
                  [\<lparr>r_user = resolve_username req, r_date = d,
                    r_reflection_text = py_str B (resolve_text req),
                    r_ai_feedback = feedback (mock_ai_feedback B (py_str B (resolve_text req))),
                    r_summary = summary (mock_ai_feedback B (py_str B (resolve_text req))),
                    r_xp_reward = xp_reward (mock_ai_feedback B (py_str B (resolve_text req)))\<rparr>]\<rparr>)"
    by (simp add: add_reflection_def f Let_def)
  have b: "find_user (users s) (sr_user p) = Some u \<and> sr_total_questions p = Some n \<and> 1 \<le> n
        \<and> ACTIVE_SESSIONS s (sr_user p) = None
      \<longrightarrow> fst (start_boss_battle B p ai clk s) =
            Inr (Started (sr_user p)
                  (case sr_time_limit_seconds p of None \<Rightarrow> 180 | Some t \<Rightarrow> if t \<noteq> 0 then t else 180)
                  3 1 (min n 5) (question (QUESTIONS ! 0)) (choices (QUESTIONS ! 0)))
          \<and> map_option questions (ACTIVE_SESSIONS (snd (start_boss_battle B p ai clk s)) (sr_user p)) =
              Some (take (nat n) QUESTIONS)
          \<and> map_option total_questions
               (ACTIVE_SESSIONS (snd (start_boss_battle B p ai clk s)) (sr_user p)) =
              Some (min n 5)"
  proof (intro impI, elim conjE)
    assume h: "find_user (users s) (sr_user p) = Some u" "sr_total_questions p = Some n" "1 \<le> n"
      "ACTIVE_SESSIONS s (sr_user p) = None"
    have q: "slice_to QUESTIONS (min n 5) = take (nat n) QUESTIONS"
      using h(3) by (simp add: slice_to_QUESTIONS) (simp add: slice_to_def)
    have "0 < nat n"
      using h(3) by simp
    then obtain k where "nat n = Suc k"
      using gr0_implies_Suc by blast
    then have ne: "take (nat n) QUESTIONS = QUESTIONS ! 0 # take k (tl QUESTIONS)"
      by (simp add: QUESTIONS_def)
    show "fst (start_boss_battle B p ai clk s) =
            Inr (Started (sr_user p)
                  (case sr_time_limit_seconds p of None \<Rightarrow> 180 | Some t \<Rightarrow> if t \<noteq> 0 then t else 180)
                  3 1 (min n 5) (question (QUESTIONS ! 0)) (choices (QUESTIONS ! 0)))
          \<and> map_option questions (ACTIVE_SESSIONS (snd (start_boss_battle B p ai clk s)) (sr_user p)) =
              Some (take (nat n) QUESTIONS)
          \<and> map_option total_questions
               (ACTIVE_SESSIONS (snd (start_boss_battle B p ai clk s)) (sr_user p)) =
              Some (min n 5)"
      using h
      by (simp add: start_boss_battle_def g length_QUESTIONS Let_def) (simp add: q ne)
  qed
  have c: "fst (add_reflection B req ai clk s) = Inl e
      \<longrightarrow> fst (add_reflection B req other clk s) = Inl e"
    using add_reflection_error_any_reply by blast
  have d: "fst (start_boss_battle B p ai clk s) = Inl e
      \<longrightarrow> fst (start_boss_battle B p other clk s) = Inl e"
    using start_error_any_reply by blast
  show ?thesis
    by (insert f [of rt] g [of n] a b c d, intro conjI; assumption)
qed

text \<open>
  Instances: a reflection of \<open>bob\<close> without a configured client, a reflection without
  text, and a start for three questions while the call raises.
\<close>

theorem ai_failure_falls_back_witness:
  "find_user_val (users reg_state) (resolve_username (ex_reflection_req ''bob'')) = Some ex_user
   \<and> reflection_date (ex_reflection_req ''bob'') (ex_clock 9 0) = Inr (PDate 9)
   \<and> find_user (users reg_state) ''bob'' = Some ex_user
   \<and> ACTIVE_SESSIONS reg_state ''bob'' = None
   \<and> add_reflection ex_builtins (ex_reflection_req ''bob'') Unconfigured (ex_clock 9) reg_state =
     (Inr (ex_row 9), reg_state\<lparr>reflections := [ex_row 9]\<rparr>)
   \<and> fst (add_reflection ex_builtins (ex_query_req ''bob'' None) Raises (ex_clock 9) reg_state) =
       Inl (HTTPException 400 ''reflection_text is required.'')
   \<and> fst (add_reflection ex_builtins (ex_query_req ''bob'' None) short_reply (ex_clock 9) reg_state) =
       Inl (HTTPException 400 ''reflection_text is required.'')
   \<and> generate_ai_questions ex_builtins Raises 3 = take 3 QUESTIONS
   \<and> fst (start_boss_battle ex_builtins (ex_start ''bob'' 3) Raises (ex_clock 0) reg_state) =
       Inr first_question_view
   \<and> map_option questions
        (ACTIVE_SESSIONS (snd (start_boss_battle ex_builtins (ex_start ''bob'' 3) Raises (ex_clock 0)
           reg_state)) ''bob'') = Some (take 3 QUESTIONS)"
proof -
  have u: "resolve_username (ex_reflection_req ''bob'') = PStr ''bob''"
    and t: "resolve_text (ex_reflection_req ''bob'') = PStr ''Tired but focused''"
    by (simp_all add: resolve_username_def resolve_text_def incoming_def ex_reflection_req_def
        dict_get_def py_or_def)
  have fu: "find_user_val (users reg_state) (PStr ''bob'') = Some ex_user"
    and fs: "find_user (users reg_state) ''bob'' = Some ex_user"
    by (simp_all add: find_user_val_def find_user_def reg_state_def ex_user_def)
  have d: "reflection_date (ex_reflection_req ''bob'') (ex_clock 9 0) = Inr (PDate 9)"
    by (simp add: reflection_date_def incoming_def ex_reflection_req_def dict_get_def ex_clock_def)
  have m: "mock_ai_feedback ex_builtins ''Tired but focused'' =
      \<lparr>feedback = r_ai_feedback (ex_row 9), summary = r_summary (ex_row 9), xp_reward = 10\<rparr>"
    by (simp add: mock_ai_feedback_def ex_builtins_def ex_lower_def shorten_def str_len_def
        is_continuation_def ex_row_def)
  have sv: "fst (start_boss_battle ex_builtins (ex_start ''bob'' 3) Raises (ex_clock 0) reg_state) =
       Inr first_question_view"
    by (simp add: start_boss_battle_def ex_start_def find_user_def ex_user_def reg_state_def
        length_QUESTIONS generate_ai_questions_def slice_to_def first_question_view_def Let_def
        QUESTIONS_def)
  note A = ai_failure_falls_back [where ai = Unconfigured and B = ex_builtins
      and req = "ex_reflection_req ''bob''" and s = reg_state and u = ex_user and clk = "ex_clock 9"
      and d = "PDate 9"]
  note B = ai_failure_falls_back [where ai = Raises and B = ex_builtins and n = 3
      and p = "ex_start ''bob'' 3" and s = reg_state and u = ex_user and clk = "ex_clock 0"]
  have a: "add_reflection ex_builtins (ex_reflection_req ''bob'') Unconfigured (ex_clock 9) reg_state =
     (Inr (ex_row 9), reg_state\<lparr>reflections := [ex_row 9]\<rparr>)"
    using A u t fu d by (simp add: m reg_state_def) (simp add: ex_row_def)
  have b: "generate_ai_questions ex_builtins Raises 3 = take 3 QUESTIONS
     \<and> map_option questions
        (ACTIVE_SESSIONS (snd (start_boss_battle ex_builtins (ex_start ''bob'' 3) Raises (ex_clock 0)
           reg_state)) ''bob'') = Some (take 3 QUESTIONS)"
    using B fs by (simp add: ex_start_def slice_to_def) (simp add: reg_state_def)
  have e1: "fst (add_reflection ex_builtins (ex_query_req ''bob'' None) Raises (ex_clock 9) reg_state) =
       Inl (HTTPException 400 ''reflection_text is required.'')"
    by (simp add: add_reflection_def resolve_username_def resolve_text_def incoming_def
        ex_query_req_def dict_get_def py_or_def opt_str_def)
  note C = ai_failure_falls_back [where ai = Raises and B = ex_builtins
      and req = "ex_query_req ''bob'' None" and s = reg_state and clk = "ex_clock 9"
      and other = short_reply and e = "HTTPException 400 ''reflection_text is required.''"]
  have e2: "fst (add_reflection ex_builtins (ex_query_req ''bob'' None) short_reply (ex_clock 9) reg_state) =
       Inl (HTTPException 400 ''reflection_text is required.'')"
    using C e1 by simp
  from a b sv u fu fs d e1 e2 show ?thesis by (simp add: reg_state_def)
qed

section \<open>Starting twice (claim C7)\<close>




section \<open>Unknown users (claim C8)\<close>

text \<open>
  Claim C8, as stated, fails for \<open>POST /text-ai/\<close>: \<open>add_reflection\<close> tests the two
  required fields before it looks for the user. Here nobody is called \<open>ghost\<close> and the
  request carries no reflection text; the status is 400, not 404.
\<close>

theorem unknown_user_without_text:
  "find_user (users reg_state) ''ghost'' = None
   \<and> resolve_username (ex_query_req ''ghost'' None) = PStr ''ghost''
   \<and> add_reflection ex_builtins (ex_query_req ''ghost'' None) Unconfigured (ex_clock 0) reg_state =
       (Inl (HTTPException 400 ''reflection_text is required.''), reg_state)
   \<and> status_code (HTTPException 400 ''reflection_text is required.'') \<noteq> 404"
  by (simp add: add_reflection_def resolve_username_def resolve_text_def incoming_def
      ex_query_req_def dict_get_def py_or_def opt_str_def find_user_def reg_state_def ex_user_def)

text \<open>
  Claim C8, amended. For every username with no matching \<open>User\<close> row,
  \<open>POST /boss/start\<close>, \<open>GET /home/dashboard\<close> and \<open>GET /text-ai/\<close> fail with status 404.
  \<open>POST /text-ai/\<close> for that username fails with status 404 when the username is not
  empty and the request carries a reflection text, with status 400 when the username is
  not empty and the request carries no reflection text, and with status 400 when the
  username is empty. None of them creates or modifies a record: the two handlers that can
  write return the state unchanged, the other two only read it.
\<close>

theorem unknown_user_not_found:
  assumes "find_user (users s) user = None"
  shows "(sr_user p = user \<longrightarrow>
           start_boss_battle B p ai clk s =
             (Inl (HTTPException 404 ''User not found. Please register first.''), s))
   \<and> get_dashboard user s = Inl (HTTPException 404 ''User not found. Please register first.'')
   \<and> list_reflections user s = Inl (HTTPException 404 ''User not found. Please register first.'')
   \<and> (resolve_username req = PStr user \<and> user \<noteq> [] \<and> truthy (resolve_text req) \<longrightarrow>
         add_reflection B req ai clk s =
           (Inl (HTTPException 404 ''User not found. Please register first.''), s))
   \<and> (resolve_username req = PStr user \<and> user \<noteq> [] \<and> \<not> truthy (resolve_text req) \<longrightarrow>
         add_reflection B req ai clk s =
           (Inl (HTTPException 400 ''reflection_text is required.''), s))
   \<and> (resolve_username req = PStr user \<and> user = [] \<longrightarrow>
         add_reflection B req ai clk s = (Inl (HTTPException 400 ''user is required.''), s))"
  using assms
  by (auto simp: start_boss_battle_def get_dashboard_def list_reflections_def add_reflection_def
      find_user_val_def Let_def)

text \<open>
  Instances: the four requests for \<open>ghost\<close>, who has no row; a reflection of \<open>ghost\<close>
  without a text; and a reflection under the empty username.
\<close>

theorem unknown_user_not_found_witness:
  "find_user (users reg_state) ''ghost'' = None
   \<and> start_boss_battle ex_builtins (ex_start ''ghost'' 3) Unconfigured (ex_clock 0) reg_state =
       (Inl (HTTPException 404 ''User not found. Please register first.''), reg_state)
   \<and> get_dashboard ''ghost'' reg_state = Inl (HTTPException 404 ''User not found. Please register first.'')
   \<and> list_reflections ''ghost'' reg_state = Inl (HTTPException 404 ''User not found. Please register first.'')
   \<and> resolve_username (ex_reflection_req ''ghost'') = PStr ''ghost''
   \<and> truthy (resolve_text (ex_reflection_req ''ghost''))
   \<and> add_reflection ex_builtins (ex_reflection_req ''ghost'') Unconfigured (ex_clock 0) reg_state =
       (Inl (HTTPException 404 ''User not found. Please register first.''), reg_state)
   \<and> resolve_username (ex_query_req ''ghost'' None) = PStr ''ghost''
   \<and> resolve_text (ex_query_req ''ghost'' None) = PNone
   \<and> add_reflection ex_builtins (ex_query_req ''ghost'' None) Unconfigured (ex_clock 0) reg_state =
       (Inl (HTTPException 400 ''reflection_text is required.''), reg_state)
   \<and> find_user (users reg_state) [] = None
   \<and> resolve_username (ex_query_req [] (Some ''A good day'')) = PStr []
   \<and> add_reflection ex_builtins (ex_query_req [] (Some ''A good day'')) Unconfigured (ex_clock 0)
         reg_state =
       (Inl (HTTPException 400 ''user is required.''), reg_state)"
proof -
  have h: "find_user (users reg_state) ''ghost'' = None"
    and he: "find_user (users reg_state) [] = None"
    by (simp_all add: find_user_def reg_state_def ex_user_def)
  have p: "sr_user (ex_start ''ghost'' 3) = ''ghost''"
    by (simp add: ex_start_def)
  have u: "resolve_username (ex_reflection_req ''ghost'') = PStr ''ghost''"
    and t: "truthy (resolve_text (ex_reflection_req ''ghost''))"
    and u2: "resolve_username (ex_query_req ''ghost'' None) = PStr ''ghost''"
    and t2: "resolve_text (ex_query_req ''ghost'' None) = PNone"
    and u3: "resolve_username (ex_query_req [] (Some ''A good day'')) = PStr []"
    by (simp_all add: resolve_username_def resolve_text_def incoming_def ex_reflection_req_def
        ex_query_req_def dict_get_def py_or_def opt_str_def)
  note A = unknown_user_not_found [OF h, where p = "ex_start ''ghost'' 3" and B = ex_builtins
      and ai = Unconfigured and clk = "ex_clock 0" and req = "ex_reflection_req ''ghost''"]
  note B = unknown_user_not_found [OF h, where B = ex_builtins
      and ai = Unconfigured and clk = "ex_clock 0" and req = "ex_query_req ''ghost'' None"]
  note C = unknown_user_not_found [OF he, where B = ex_builtins
      and ai = Unconfigured and clk = "ex_clock 0" and req = "ex_query_req [] (Some ''A good day'')"]
  have a: "start_boss_battle ex_builtins (ex_start ''ghost'' 3) Unconfigured (ex_clock 0) reg_state =
       (Inl (HTTPException 404 ''User not found. Please register first.''), reg_state)
     \<and> get_dashboard ''ghost'' reg_state = Inl (HTTPException 404 ''User not found. Please register first.'')
     \<and> list_reflections ''ghost'' reg_state = Inl (HTTPException 404 ''User not found. Please register first.'')
     \<and> add_reflection ex_builtins (ex_reflection_req ''ghost'') Unconfigured (ex_clock 0) reg_state =
       (Inl (HTTPException 404 ''User not found. Please register first.''), reg_state)"
    using A p u t by simp
  have b: "add_reflection ex_builtins (ex_query_req ''ghost'' None) Unconfigured (ex_clock 0) reg_state =
       (Inl (HTTPException 400 ''reflection_text is required.''), reg_state)"
    using B u2 t2 by simp
  have c: "add_reflection ex_builtins (ex_query_req [] (Some ''A good day'')) Unconfigured (ex_clock 0)
         reg_state =
       (Inl (HTTPException 400 ''user is required.''), reg_state)"
    using C u3 by simp
  from a b c h he u t u2 t2 u3 show ?thesis by simp
qed

section \<open>Missing fields (claim C9)\<close>

text \<open>
  Claim C9, as stated, fails for \<open>POST /boss/start\<close>: \<open>start_boss_battle\<close> looks for the
  user before it tests \<open>total_questions\<close>. Here nobody is called \<open>ghost\<close> and the request
  has \<open>total_questions = 0\<close>; the status is 404, not 400.
\<close>

theorem unknown_user_and_no_questions:
  "find_user (users reg_state) ''ghost'' = None
   \<and> sr_total_questions (ex_start ''ghost'' 0) = Some 0
   \<and> start_boss_battle ex_builtins (ex_start ''ghost'' 0) Unconfigured (ex_clock 0) reg_state =
       (Inl (HTTPException 404 ''User not found. Please register first.''), reg_state)
   \<and> status_code (HTTPException 404 ''User not found. Please register first.'') \<noteq> 400"
  by (simp add: start_boss_battle_def ex_start_def find_user_def reg_state_def ex_user_def)

text \<open>
  Claim C9, amended. \<open>POST /boss/answer\<close> fails with status 400 and changes nothing
  when the handler resolves no user, as it does for a body with an empty user and for a
  request without a body whose query parameter \<open>user\<close> is missing or empty; and when it
  resolves a user but no choice index, as it does for a request without a body that has
  a query parameter \<open>user\<close> that is not empty and lacks the query parameter
  \<open>choice_idx\<close>.
  \<open>POST /text-ai/\<close> fails with status 400 and changes nothing when no user can be
  resolved from the JSON body or the query parameter, and when a user but no reflection
  text can be resolved from them, as for a body of the schema, or no body, with an empty
  or missing user or text. \<open>POST /boss/start\<close> with \<open>total_questions\<close> below 1 fails with
  status 400 and changes nothing when the user is registered; when the user has no row,
  it fails with status 404 and changes nothing.
\<close>

theorem missing_field_bad_request:
  "(\<not> truthy (fst (resolve_answer B a)) \<longrightarrow>
      submit_answer B a clk s = (Inl (HTTPException 400 ''user is required.''), s))
   \<and> (truthy (fst (resolve_answer B a)) \<and> snd (resolve_answer B a) = None \<longrightarrow>
      submit_answer B a clk s = (Inl (HTTPException 400 ''choice_idx is required.''), s))
   \<and> (payload a = Some (AnswerRequest [] c) \<longrightarrow>
      submit_answer B a clk s = (Inl (HTTPException 400 ''user is required.''), s))
   \<and> (payload a = None \<and> (q_user a = None \<or> q_user a = Some []) \<longrightarrow>
      submit_answer B a clk s = (Inl (HTTPException 400 ''user is required.''), s))
   \<and> (payload a = None \<and> q_user a = Some name \<and> name \<noteq> [] \<and> q_choice_idx a = None \<longrightarrow>
      submit_answer B a clk s = (Inl (HTTPException 400 ''choice_idx is required.''), s))
   \<and> (\<not> truthy (resolve_username req) \<longrightarrow>
      add_reflection B req ai clk s = (Inl (HTTPException 400 ''user is required.''), s))
   \<and> (truthy (resolve_username req) \<and> \<not> truthy (resolve_text req) \<longrightarrow>
      add_reflection B req ai clk s = (Inl (HTTPException 400 ''reflection_text is required.''), s))
   \<and> (rdata req = BodyModel m \<and> trc_user m = [] \<and> (rq_user req = None \<or> rq_user req = Some [])
      \<longrightarrow> add_reflection B req ai clk s = (Inl (HTTPException 400 ''user is required.''), s))
   \<and> (rdata req = BodyNone \<and> (rq_user req = None \<or> rq_user req = Some [])
      \<longrightarrow> add_reflection B req ai clk s = (Inl (HTTPException 400 ''user is required.''), s))
   \<and> (rdata req = BodyModel m \<and> trc_user m \<noteq> [] \<and> trc_reflection_text m = []
        \<and> (rq_text req = None \<or> rq_text req = Some [])
      \<longrightarrow> add_reflection B req ai clk s = (Inl (HTTPException 400 ''reflection_text is required.''), s))
   \<and> (rdata req = BodyNone \<and> rq_user req = Some name \<and> name \<noteq> []
        \<and> (rq_text req = None \<or> rq_text req = Some [])
      \<longrightarrow> add_reflection B req ai clk s = (Inl (HTTPException 400 ''reflection_text is required.''), s))
   \<and> (find_user (users s) (sr_user p) = Some u \<and> sr_total_questions p = Some n \<and> n < 1 \<longrightarrow>
      start_boss_battle B p ai clk s = (Inl (HTTPException 400 ''total_questions must be >= 1''), s))
   \<and> (find_user (users s) (sr_user p) = None \<longrightarrow>
      start_boss_battle B p ai clk s =
        (Inl (HTTPException 404 ''User not found. Please register first.''), s))"
proof -
  have a1: "\<not> truthy (fst (resolve_answer B a)) \<longrightarrow>
      submit_answer B a clk s = (Inl (HTTPException 400 ''user is required.''), s)"
    and a2: "truthy (fst (resolve_answer B a)) \<and> snd (resolve_answer B a) = None \<longrightarrow>
      submit_answer B a clk s = (Inl (HTTPException 400 ''choice_idx is required.''), s)"
    by (auto simp: submit_answer_def split: prod.splits)
  have a3: "payload a = Some (AnswerRequest [] c) \<longrightarrow>
      submit_answer B a clk s = (Inl (HTTPException 400 ''user is required.''), s)"
    by (simp add: submit_answer_def resolve_answer_def)
  have a4: "payload a = None \<and> (q_user a = None \<or> q_user a = Some []) \<longrightarrow>
      submit_answer B a clk s = (Inl (HTTPException 400 ''user is required.''), s)"
    by (auto simp: submit_answer_def resolve_answer_def dict_get_def py_or_def opt_str_def Let_def)
  have a5: "payload a = None \<and> q_user a = Some name \<and> name \<noteq> [] \<and> q_choice_idx a = None \<longrightarrow>
      submit_answer B a clk s = (Inl (HTTPException 400 ''choice_idx is required.''), s)"
    by (auto simp: submit_answer_def resolve_answer_def dict_get_def py_or_def opt_str_def
        opt_int_def Let_def)
  have r1: "\<not> truthy (resolve_username req) \<longrightarrow>
      add_reflection B req ai clk s = (Inl (HTTPException 400 ''user is required.''), s)"
    and r2: "truthy (resolve_username req) \<and> \<not> truthy (resolve_text req) \<longrightarrow>
      add_reflection B req ai clk s = (Inl (HTTPException 400 ''reflection_text is required.''), s)"
    by (auto simp: add_reflection_def Let_def)
  have u1: "\<not> truthy (resolve_username req)"
    if "rdata req = BodyModel m \<and> trc_user m = [] \<and> (rq_user req = None \<or> rq_user req = Some [])"
    using that
    by (auto simp: resolve_username_def incoming_def dict_get_def py_or_def opt_str_def
        split: option.splits)
  have u2: "\<not> truthy (resolve_username req)"
    if "rdata req = BodyNone \<and> (rq_user req = None \<or> rq_user req = Some [])"
    using that
    by (auto simp: resolve_username_def incoming_def dict_get_def py_or_def opt_str_def)
  have t1: "truthy (resolve_username req) \<and> \<not> truthy (resolve_text req)"
    if "rdata req = BodyModel m \<and> trc_user m \<noteq> [] \<and> trc_reflection_text m = []
        \<and> (rq_text req = None \<or> rq_text req = Some [])"
    using that
    by (auto simp: resolve_username_def resolve_text_def incoming_def dict_get_def py_or_def
        opt_str_def split: option.splits)
  have t2: "truthy (resolve_username req) \<and> \<not> truthy (resolve_text req)"
    if "rdata req = BodyNone \<and> rq_user req = Some name \<and> name \<noteq> []
        \<and> (rq_text req = None \<or> rq_text req = Some [])"
    using that
    by (auto simp: resolve_username_def resolve_text_def incoming_def dict_get_def py_or_def
        opt_str_def)
  have r3: "rdata req = BodyModel m \<and> trc_user m = [] \<and> (rq_user req = None \<or> rq_user req = Some [])
      \<longrightarrow> add_reflection B req ai clk s = (Inl (HTTPException 400 ''user is required.''), s)"
    using u1 r1 by blast
  have r4: "rdata req = BodyNone \<and> (rq_user req = None \<or> rq_user req = Some [])
      \<longrightarrow> add_reflection B req ai clk s = (Inl (HTTPException 400 ''user is required.''), s)"
    using u2 r1 by blast
  have r5: "rdata req = BodyModel m \<and> trc_user m \<noteq> [] \<and> trc_reflection_text m = []
        \<and> (rq_text req = None \<or> rq_text req = Some [])
      \<longrightarrow> add_reflection B req ai clk s = (Inl (HTTPException 400 ''reflection_text is required.''), s)"
    using t1 r2 by blast
  have r6: "rdata req = BodyNone \<and> rq_user req = Some name \<and> name \<noteq> []
        \<and> (rq_text req = None \<or> rq_text req = Some [])
      \<longrightarrow> add_reflection B req ai clk s = (Inl (HTTPException 400 ''reflection_text is required.''), s)"
    using t2 r2 by blast
  have s1: "find_user (users s) (sr_user p) = Some u \<and> sr_total_questions p = Some n \<and> n < 1 \<longrightarrow>
      start_boss_battle B p ai clk s = (Inl (HTTPException 400 ''total_questions must be >= 1''), s)"
    and s2: "find_user (users s) (sr_user p) = None \<longrightarrow>
      start_boss_battle B p ai clk s =
        (Inl (HTTPException 404 ''User not found. Please register first.''), s)"
    by (auto simp: start_boss_battle_def)
  show ?thesis
    by (insert a1 a2 a3 a4 a5 r1 r2 r3 r4 r5 r6 s1 s2, intro conjI; assumption)
qed

text \<open>
  Instances: an answer with an empty user in its body, one without a body and without a
  user, and one without a choice; a reflection without a user and one without a text; a
  start of \<open>bob\<close> for no question, and the same start of \<open>ghost\<close>, who has no row.
\<close>

theorem missing_field_bad_request_witness:
  "payload ex_empty_answer = Some (AnswerRequest [] 1)
   \<and> submit_answer ex_builtins ex_empty_answer (ex_clock 0) ex_state =
       (Inl (HTTPException 400 ''user is required.''), ex_state)
   \<and> resolve_answer ex_builtins (ex_query_answer None (Some 1)) = (PNone, Some 1)
   \<and> submit_answer ex_builtins (ex_query_answer None (Some 1)) (ex_clock 0) ex_state =
       (Inl (HTTPException 400 ''user is required.''), ex_state)
   \<and> resolve_answer ex_builtins (ex_query_answer (Some ''bob'') None) = (PStr ''bob'', None)
   \<and> submit_answer ex_builtins (ex_query_answer (Some ''bob'') None) (ex_clock 0) ex_state =
       (Inl (HTTPException 400 ''choice_idx is required.''), ex_state)
   \<and> resolve_username ex_anonymous_req = PNone
   \<and> add_reflection ex_builtins ex_anonymous_req Unconfigured (ex_clock 0) reg_state =
       (Inl (HTTPException 400 ''user is required.''), reg_state)
   \<and> resolve_username (ex_query_req ''bob'' None) = PStr ''bob''
   \<and> resolve_text (ex_query_req ''bob'' None) = PNone
   \<and> add_reflection ex_builtins (ex_query_req ''bob'' None) Unconfigured (ex_clock 0) reg_state =
       (Inl (HTTPException 400 ''reflection_text is required.''), reg_state)
   \<and> find_user (users reg_state) (sr_user (ex_start ''bob'' 0)) = Some ex_user
   \<and> start_boss_battle ex_builtins (ex_start ''bob'' 0) Unconfigured (ex_clock 0) reg_state =
       (Inl (HTTPException 400 ''total_questions must be >= 1''), reg_state)
   \<and> find_user (users reg_state) (sr_user (ex_start ''ghost'' 0)) = None
   \<and> start_boss_battle ex_builtins (ex_start ''ghost'' 0) Unconfigured (ex_clock 0) reg_state =
       (Inl (HTTPException 404 ''User not found. Please register first.''), reg_state)"
proof -
  have p0: "payload ex_empty_answer = Some (AnswerRequest [] 1)"
    by (simp add: ex_empty_answer_def)
  have q1: "payload (ex_query_answer None (Some 1)) = None"
      "q_user (ex_query_answer None (Some 1)) = None"
    and q2: "payload (ex_query_answer (Some ''bob'') None) = None"
      "q_user (ex_query_answer (Some ''bob'') None) = Some ''bob''"
      "q_choice_idx (ex_query_answer (Some ''bob'') None) = None"
    by (simp_all add: ex_query_answer_def)
  have r1: "resolve_answer ex_builtins (ex_query_answer None (Some 1)) = (PNone, Some 1)"
    and r2: "resolve_answer ex_builtins (ex_query_answer (Some ''bob'') None) = (PStr ''bob'', None)"
    by (simp_all add: resolve_answer_def ex_query_answer_def dict_get_def py_or_def opt_str_def
        opt_int_def)
  have d1: "rdata ex_anonymous_req = BodyNone" "rq_user ex_anonymous_req = None"
    and d2: "rdata (ex_query_req ''bob'' None) = BodyNone"
      "rq_user (ex_query_req ''bob'' None) = Some ''bob''"
      "rq_text (ex_query_req ''bob'' None) = None"
    by (simp_all add: ex_anonymous_req_def ex_query_req_def)
  have u1: "resolve_username ex_anonymous_req = PNone"
    and u2: "resolve_username (ex_query_req ''bob'' None) = PStr ''bob''"
    and t2: "resolve_text (ex_query_req ''bob'' None) = PNone"
    by (simp_all add: resolve_username_def resolve_text_def incoming_def ex_anonymous_req_def
        ex_query_req_def dict_get_def py_or_def opt_str_def)
  have f: "find_user (users reg_state) (sr_user (ex_start ''bob'' 0)) = Some ex_user"
    and g: "find_user (users reg_state) (sr_user (ex_start ''ghost'' 0)) = None"
    and n: "sr_total_questions (ex_start ''bob'' 0) = Some 0"
    by (simp_all add: find_user_def reg_state_def ex_user_def ex_start_def)
  note P = missing_field_bad_request [where B = ex_builtins and a = ex_empty_answer and c = 1
      and clk = "ex_clock 0" and s = ex_state]
  note A = missing_field_bad_request [where B = ex_builtins and a = "ex_query_answer None (Some 1)"
      and clk = "ex_clock 0" and s = ex_state]
  note B = missing_field_bad_request [where B = ex_builtins
      and a = "ex_query_answer (Some ''bob'') None" and name = "''bob''" and clk = "ex_clock 0"
      and s = ex_state]
  note C = missing_field_bad_request [where B = ex_builtins and req = ex_anonymous_req
      and ai = Unconfigured and clk = "ex_clock 0" and s = reg_state]
  note D = missing_field_bad_request [where B = ex_builtins and req = "ex_query_req ''bob'' None"
      and name = "''bob''" and ai = Unconfigured and clk = "ex_clock 0" and s = reg_state
      and p = "ex_start ''bob'' 0" and u = ex_user and n = 0]
  note E = missing_field_bad_request [where B = ex_builtins and ai = Unconfigured
      and clk = "ex_clock 0" and s = reg_state and p = "ex_start ''ghost'' 0"]
  have p: "submit_answer ex_builtins ex_empty_answer (ex_clock 0) ex_state =
       (Inl (HTTPException 400 ''user is required.''), ex_state)"
    using P p0 by simp
  have a: "submit_answer ex_builtins (ex_query_answer None (Some 1)) (ex_clock 0) ex_state =
       (Inl (HTTPException 400 ''user is required.''), ex_state)"
    using A q1 by simp
  have b: "submit_answer ex_builtins (ex_query_answer (Some ''bob'') None) (ex_clock 0) ex_state =
       (Inl (HTTPException 400 ''choice_idx is required.''), ex_state)"
    using B q2 by simp
  have c: "add_reflection ex_builtins ex_anonymous_req Unconfigured (ex_clock 0) reg_state =
       (Inl (HTTPException 400 ''user is required.''), reg_state)"
    using C d1 by simp
  have d: "add_reflection ex_builtins (ex_query_req ''bob'' None) Unconfigured (ex_clock 0) reg_state =
       (Inl (HTTPException 400 ''reflection_text is required.''), reg_state)"
    using D d2 by simp
  have e: "start_boss_battle ex_builtins (ex_start ''bob'' 0) Unconfigured (ex_clock 0) reg_state =
       (Inl (HTTPException 400 ''total_questions must be >= 1''), reg_state)"
    using D f n by simp
  have e2: "start_boss_battle ex_builtins (ex_start ''ghost'' 0) Unconfigured (ex_clock 0) reg_state =
       (Inl (HTTPException 404 ''User not found. Please register first.''), reg_state)"
    using E g by simp
  from p a b c d e e2 p0 r1 r2 u1 u2 t2 f g show ?thesis by simp
qed

section \<open>The session invariant (claim C10)\<close>

text \<open>
  Claim C10. Take any state in which every session of the map satisfies the invariant
  \<open>1 \<le> lives \<le> 3\<close>, \<open>0 \<le> score \<le> index < total_questions\<close> and \<open>total_questions \<le> 5\<close>;
  the state with an empty map is one. After any sequence of requests to the \<open>/boss\<close>
  handlers, with any clock readings and any replies of the chat-completion API, every
  session still in the map satisfies the invariant. A sequence of one request is the case
  of a single handler.
\<close>

theorem run_keeps_session_invariant:
  assumes "\<forall>u y. ACTIVE_SESSIONS s u = Some y \<longrightarrow>
             1 \<le> lives y \<and> lives y \<le> 3 \<and> 0 \<le> score y \<and> score y \<le> index y
             \<and> index y < total_questions y \<and> total_questions y \<le> 5"
  shows "\<forall>u x. ACTIVE_SESSIONS (run B reqs s) u = Some x \<longrightarrow>
           1 \<le> lives x \<and> lives x \<le> 3 \<and> 0 \<le> score x \<and> score x \<le> index x
           \<and> index x < total_questions x \<and> total_questions x \<le> 5"
proof -
  from assms have "\<forall>u y. ACTIVE_SESSIONS s u = Some y \<longrightarrow> sess_inv y"
    by (simp add: sess_inv_def)
  then have "\<forall>u x. ACTIVE_SESSIONS (run B reqs s) u = Some x \<longrightarrow> sess_inv x"
    by (rule run_sess_inv)
  then show ?thesis
    by (simp add: sess_inv_def)
qed

text \<open>
  An instance: from the empty map, \<open>bob\<close> starts a battle for nine questions, answers the
  first question correctly and the second one wrongly.
\<close>

theorem run_keeps_session_invariant_witness:
  "ACTIVE_SESSIONS reg_state = Map.empty
   \<and> ACTIVE_SESSIONS
        (run ex_builtins [(PostStart (ex_start ''bob'' 9) Unconfigured, ex_clock 0),
                          (PostAnswer (ex_answer 1), ex_clock 1000000),
                          (PostAnswer (ex_answer 3), ex_clock 2000000)] reg_state) ''bob'' =
       Some (ex_session\<lparr>lives := 2, score := 1\<rparr>)
   \<and> 1 \<le> lives (ex_session\<lparr>lives := 2, score := 1\<rparr>)
   \<and> lives (ex_session\<lparr>lives := 2, score := 1\<rparr>) \<le> 3
   \<and> 0 \<le> score (ex_session\<lparr>lives := 2, score := 1\<rparr>)
   \<and> score (ex_session\<lparr>lives := 2, score := 1\<rparr>) \<le> index (ex_session\<lparr>lives := 2, score := 1\<rparr>)
   \<and> index (ex_session\<lparr>lives := 2, score := 1\<rparr>) < total_questions (ex_session\<lparr>lives := 2, score := 1\<rparr>)
   \<and> total_questions (ex_session\<lparr>lives := 2, score := 1\<rparr>) \<le> 5"
proof -
  have e: "ACTIVE_SESSIONS reg_state = Map.empty"
    by (simp add: reg_state_def)
  then have h: "\<forall>u y. ACTIVE_SESSIONS reg_state u = Some y \<longrightarrow>
             1 \<le> lives y \<and> lives y \<le> 3 \<and> 0 \<le> score y \<and> score y \<le> index y
             \<and> index y < total_questions y \<and> total_questions y \<le> 5"
    by simp
  have r1: "resolve_answer ex_builtins (ex_answer 1) = (PStr ''bob'', Some 1)"
    and r3: "resolve_answer ex_builtins (ex_answer 3) = (PStr ''bob'', Some 3)"
    by (simp_all add: resolve_answer_def ex_answer_def)
  have s1: "snd (start_boss_battle ex_builtins (ex_start ''bob'' 9) Unconfigured (ex_clock 0) reg_state) =
      reg_state\<lparr>ACTIVE_SESSIONS := [''bob'' \<mapsto> ex_session\<lparr>score := 0, index := 0\<rparr>]\<rparr>"
    by (simp add: start_boss_battle_def ex_start_def reg_state_def find_user_def ex_user_def
        length_QUESTIONS generate_ai_questions_def slice_to_def ex_session_def ex_clock_def
        Let_def split: list.splits)
  have s2: "snd (submit_answer ex_builtins (ex_answer 1) (ex_clock 1000000)
               (reg_state\<lparr>ACTIVE_SESSIONS := [''bob'' \<mapsto> ex_session\<lparr>score := 0, index := 0\<rparr>]\<rparr>)) =
      reg_state\<lparr>ACTIVE_SESSIONS := [''bob'' \<mapsto> ex_session\<lparr>score := 1, index := 1\<rparr>]\<rparr>"
    by (subst submit_answer_found [OF r1, where sess = "ex_session\<lparr>score := 0, index := 0\<rparr>"])
      (simp_all add: ex_session_def time_remaining_def trunc_div_def ex_clock_def py_index_def
        QUESTIONS_def reg_state_def)
  have s3: "snd (submit_answer ex_builtins (ex_answer 3) (ex_clock 2000000)
               (reg_state\<lparr>ACTIVE_SESSIONS := [''bob'' \<mapsto> ex_session\<lparr>score := 1, index := 1\<rparr>]\<rparr>)) =
      reg_state\<lparr>ACTIVE_SESSIONS := [''bob'' \<mapsto> ex_session\<lparr>lives := 2, score := 1\<rparr>]\<rparr>"
    by (subst submit_answer_found [OF r3, where sess = "ex_session\<lparr>score := 1, index := 1\<rparr>"])
      (simp_all add: ex_session_def time_remaining_def trunc_div_def ex_clock_def py_index_def
        QUESTIONS_def reg_state_def)
  have r: "ACTIVE_SESSIONS
        (run ex_builtins [(PostStart (ex_start ''bob'' 9) Unconfigured, ex_clock 0),
                          (PostAnswer (ex_answer 1), ex_clock 1000000),
                          (PostAnswer (ex_answer 3), ex_clock 2000000)] reg_state) ''bob'' =
       Some (ex_session\<lparr>lives := 2, score := 1\<rparr>)"
    by (simp add: s1 s2 s3)
  from run_keeps_session_invariant [OF h, rule_format, OF r] e r show ?thesis
    by simp
qed

end
